theory Spec2Isabelle
  imports Main
begin

section \<open>Contacts backend: data model\<close>

text \<open>
  The repository is a FastAPI service over a relational store.  Exceptions of the Python
  code are values of \<open>error\<close>; a handler that raises returns \<open>Inl\<close> of the exception.
  \<open>HTTPException\<close> carries the status code and the detail string.
\<close>

text \<open>
  A Python \<open>str\<close> is a sequence of Unicode code points, and its length is their number.
  \<open>py\<close> writes a literal of the source as the list of its code points.
\<close>

type_synonym str = "nat list"

abbreviation py :: "string \<Rightarrow> str" where
  "py s \<equiv> map of_char s"

datatype error =
    HTTPException nat str
  | MultipleResultsFound
  | IntegrityError
  | RequestValidationError "str list"
  | InvalidToken

text \<open>Calendar dates (\<open>datetime.date\<close>): year, month, day.\<close>

record date =
  year :: nat
  month :: nat
  day :: nat

text \<open>
  Rows of the two tables of \<open>alembic/versions/aaeab1c5bffb_init.py\<close>.  Field names carry a
  prefix because both tables have \<open>id\<close>, \<open>email\<close> and \<open>created_at\<close> columns.
\<close>

record User =
  u_id :: nat
  u_username :: str
  u_email :: str
  u_hashed_password :: str
  u_created_at :: nat
  u_is_verified :: bool
  u_avatar_url :: "str option"

record Contact =
  c_id :: nat
  c_name :: str
  c_surname :: str
  c_email :: str
  c_phone :: str
  c_birthday :: date
  c_created_at :: nat
  c_updated_at :: "nat option"
  c_info :: "str option"
  c_user_id :: nat

text \<open>
  The database session: the two tables in insertion order and the two id sequences.
\<close>

record database =
  users :: "User list"
  contacts :: "Contact list"
  users_id_seq :: nat
  contacts_id_seq :: nat

text \<open>
  The unique constraints and primary keys that the migration declares.
\<close>

definition unique_constraints :: "database \<Rightarrow> bool" where
  "unique_constraints db \<longleftrightarrow>
     distinct (map u_id (users db)) \<and>
     distinct (map u_email (users db)) \<and>
     distinct (map u_username (users db)) \<and>
     distinct (map c_id (contacts db)) \<and>
     distinct (map c_email (contacts db)) \<and>
     distinct (map c_phone (contacts db))"

text \<open>Request and response schemas of \<open>src/schemas.py\<close>.\<close>

record UserCreate =
  uc_username :: str
  uc_email :: str
  uc_password :: str

record ContactModel =
  cm_name :: str
  cm_surname :: str
  cm_email :: str
  cm_phone :: str
  cm_birthday :: date
  cm_info :: "str option"
  cm_user_id :: int

record ContactResponse =
  cr_name :: str
  cr_surname :: str
  cr_email :: str
  cr_phone :: str
  cr_birthday :: date
  cr_info :: "str option"
  cr_user_id :: nat
  cr_id :: nat
  cr_created_at :: nat
  cr_updated_at :: "nat option"

text \<open>
  The \<open>User\<close> response schema: it has no field for the password hash.
\<close>

record UserOut =
  uo_id :: nat
  uo_username :: str
  uo_email :: str
  uo_is_verified :: bool
  uo_avatar_url :: "str option"
  uo_contacts :: "ContactResponse list"

record Token =
  access_token :: str
  token_type :: str

text \<open>A background task: \<open>send_email email username base_url\<close>.\<close>

datatype task = send_email str str str

definition ContactResponse_from :: "Contact \<Rightarrow> ContactResponse" where
  "ContactResponse_from c =
     \<lparr>cr_name = c_name c, cr_surname = c_surname c, cr_email = c_email c,
      cr_phone = c_phone c, cr_birthday = c_birthday c, cr_info = c_info c,
      cr_user_id = c_user_id c, cr_id = c_id c, cr_created_at = c_created_at c,
      cr_updated_at = c_updated_at c\<rparr>"

definition UserOut_from :: "database \<Rightarrow> User \<Rightarrow> UserOut" where
  "UserOut_from db u =
     \<lparr>uo_id = u_id u, uo_username = u_username u, uo_email = u_email u,
      uo_is_verified = u_is_verified u, uo_avatar_url = u_avatar_url u,
      uo_contacts = map ContactResponse_from
                      (filter (\<lambda>c. c_user_id c = u_id u) (contacts db))\<rparr>"

section \<open>User repository (\<open>src/repository/users.py\<close>)\<close>

text \<open>
  \<open>Result.scalar_one_or_none\<close>: no row gives \<open>None\<close>, one row gives it, more rows raise.
\<close>

fun scalar_one_or_none :: "'a list \<Rightarrow> error + 'a option" where
  "scalar_one_or_none [] = Inr None"
| "scalar_one_or_none [x] = Inr (Some x)"
| "scalar_one_or_none (x # y # zs) = Inl MultipleResultsFound"

definition UserRepository_get_user_by_id :: "nat \<Rightarrow> database \<Rightarrow> error + User option" where
  "UserRepository_get_user_by_id user_id db =
     scalar_one_or_none (filter (\<lambda>u. u_id u = user_id) (users db))"

definition UserRepository_get_user_by_username :: "str \<Rightarrow> database \<Rightarrow> error + User option" where
  "UserRepository_get_user_by_username username db =
     scalar_one_or_none (filter (\<lambda>u. u_username u = username) (users db))"

definition UserRepository_get_user_by_email :: "str \<Rightarrow> database \<Rightarrow> error + User option" where
  "UserRepository_get_user_by_email email db =
     scalar_one_or_none (filter (\<lambda>u. u_email u = email) (users db))"

text \<open>
  \<open>create_user\<close>: the row takes username and email from the request, the already hashed
  password, the given avatar and \<open>is_verified = False\<close>.  The commit fails on a violated
  unique constraint; the session is then rolled back and the exception re-raised.
  The creation time \<open>now\<close> is the column default of the table.
\<close>

definition UserRepository_create_user ::
    "UserCreate \<Rightarrow> str option \<Rightarrow> nat \<Rightarrow> database \<Rightarrow> (error + User) \<times> database" where
  "UserRepository_create_user user avatar_url now db =
     (let db_user = \<lparr>u_id = users_id_seq db, u_username = uc_username user,
                      u_email = uc_email user, u_hashed_password = uc_password user,
                      u_created_at = now, u_is_verified = False,
                      u_avatar_url = avatar_url\<rparr>
      in if list_ex (\<lambda>u. u_email u = uc_email user \<or> u_username u = uc_username user)
              (users db)
         then (Inl IntegrityError, db)
         else (Inr db_user,
               db\<lparr>users := users db @ [db_user], users_id_seq := Suc (users_id_seq db)\<rparr>))"

text \<open>
  \<open>confirmed_email\<close>: sets the flag of the user with that email, if there is one.
\<close>

definition UserRepository_confirmed_email :: "str \<Rightarrow> database \<Rightarrow> (error + unit) \<times> database" where
  "UserRepository_confirmed_email email db =
     (case UserRepository_get_user_by_email email db of
        Inl e \<Rightarrow> (Inl e, db)
      | Inr None \<Rightarrow> (Inr (), db)
      | Inr (Some user) \<Rightarrow>
          (Inr (),
           db\<lparr>users := map (\<lambda>u. if u_id u = u_id user then u\<lparr>u_is_verified := True\<rparr> else u)
                           (users db)\<rparr>))"

text \<open>
  \<open>update_avatar_url\<close>: sets the avatar of the user with that email and returns the
  refreshed row; with no such user it returns \<open>None\<close>.
\<close>

definition UserRepository_update_avatar_url ::
    "str \<Rightarrow> str \<Rightarrow> database \<Rightarrow> (error + User option) \<times> database" where
  "UserRepository_update_avatar_url email url db =
     (case UserRepository_get_user_by_email email db of
        Inl e \<Rightarrow> (Inl e, db)
      | Inr None \<Rightarrow> (Inr None, db)
      | Inr (Some user) \<Rightarrow>
          (Inr (Some (user\<lparr>u_avatar_url := Some url\<rparr>)),
           db\<lparr>users := map (\<lambda>u. if u_id u = u_id user then u\<lparr>u_avatar_url := Some url\<rparr> else u)
                           (users db)\<rparr>))"

section \<open>User service\<close>

text \<open>
  Modelled from the spec: \<open>src/services/users.py\<close> (class \<open>UserService\<close>) is missing.  The
  spec describes the service as orchestration over the user store, so each method the
  handlers call is the repository method of the same purpose; the avatar given to
  \<open>create_user\<close> is a parameter.
\<close>

definition UserService_get_user_by_email :: "str \<Rightarrow> database \<Rightarrow> error + User option" where
  "UserService_get_user_by_email email db = UserRepository_get_user_by_email email db"

definition UserService_get_user_by_username :: "str \<Rightarrow> database \<Rightarrow> error + User option" where
  "UserService_get_user_by_username username db = UserRepository_get_user_by_username username db"

definition UserService_create_user ::
    "str option \<Rightarrow> UserCreate \<Rightarrow> nat \<Rightarrow> database \<Rightarrow> (error + User) \<times> database" where
  "UserService_create_user avatar body now db = UserRepository_create_user body avatar now db"

definition UserService_confirm_email :: "str \<Rightarrow> database \<Rightarrow> (error + unit) \<times> database" where
  "UserService_confirm_email email db = UserRepository_confirmed_email email db"

section \<open>Authentication handlers (\<open>src/api/auth.py\<close>)\<close>

text \<open>
  \<open>register_user\<close>.  The body of the \<open>try\<close> block comes first: both lookups, the two
  \<open>raise HTTPException(409)\<close>, hashing, creation and the scheduling of the email.
  \<open>get_password_hash\<close> is the method of the missing \<open>Hash\<close> class, a parameter here.
\<close>

definition register_user_try ::
    "(str \<Rightarrow> str) \<Rightarrow> str option \<Rightarrow> nat \<Rightarrow> UserCreate \<Rightarrow> str \<Rightarrow> database
      \<Rightarrow> (error + User) \<times> database \<times> task list" where
  "register_user_try get_password_hash avatar now user base_url db =
     (case UserService_get_user_by_email (uc_email user) db of
        Inl e \<Rightarrow> (Inl e, db, [])
      | Inr (Some existing_user_by_email) \<Rightarrow>
          (Inl (HTTPException 409 (py ''User with this email already exists'')), db, [])
      | Inr None \<Rightarrow>
          (case UserService_get_user_by_username (uc_username user) db of
             Inl e \<Rightarrow> (Inl e, db, [])
           | Inr (Some existing_user_by_username) \<Rightarrow>
               (Inl (HTTPException 409 (py ''User with this username already exists'')), db, [])
           | Inr None \<Rightarrow>
               (case UserService_create_user avatar
                       (user\<lparr>uc_password := get_password_hash (uc_password user)\<rparr>) now db of
                  (Inl e, db') \<Rightarrow> (Inl e, db', [])
                | (Inr new_user, db') \<Rightarrow>
                    (Inr new_user, db',
                     [send_email (u_email new_user) (u_username new_user) base_url]))))"

text \<open>
  The \<open>except Exception\<close> clause around that body: every exception raised inside it,
  \<open>HTTPException\<close> included (it is a subclass of \<open>Exception\<close>), is replaced by status 500.
  A returned user is serialised through the response schema with status 201.
\<close>

definition register_user ::
    "(str \<Rightarrow> str) \<Rightarrow> str option \<Rightarrow> nat \<Rightarrow> UserCreate \<Rightarrow> str \<Rightarrow> database
      \<Rightarrow> (error + nat \<times> UserOut) \<times> database \<times> task list" where
  "register_user get_password_hash avatar now user base_url db =
     (case register_user_try get_password_hash avatar now user base_url db of
        (Inl e, db', tasks) \<Rightarrow> (Inl (HTTPException 500 (py ''Internal server error'')), db', tasks)
      | (Inr new_user, db', tasks) \<Rightarrow> (Inr (201, UserOut_from db' new_user), db', tasks))"

text \<open>
  \<open>login_user\<close>.  \<open>verify_password\<close> (class \<open>Hash\<close>) and \<open>create_access_token\<close> belong to the
  missing \<open>src/services/auth.py\<close> and are parameters; the token is created from the
  dictionary \<open>{"sub": db_user.username}\<close>.  The handler does not write to the store.
\<close>

definition login_user ::
    "(str \<Rightarrow> str \<Rightarrow> bool) \<Rightarrow> ((str \<times> str) list \<Rightarrow> str) \<Rightarrow> str \<Rightarrow> str
      \<Rightarrow> database \<Rightarrow> error + nat \<times> Token" where
  "login_user verify_password create_access_token username password db =
     (case UserService_get_user_by_username username db of
        Inl e \<Rightarrow> Inl e
      | Inr None \<Rightarrow> Inl (HTTPException 401 (py ''Incorrect login or password''))
      | Inr (Some db_user) \<Rightarrow>
          if \<not> verify_password password (u_hashed_password db_user)
          then Inl (HTTPException 401 (py ''Incorrect login or password''))
          else if \<not> u_is_verified db_user
          then Inl (HTTPException 401 (py ''Email not verified''))
          else Inr (200, \<lparr>access_token = create_access_token [(py ''sub'', u_username db_user)],
                          token_type = py ''bearer''\<rparr>))"

text \<open>
  \<open>confirmed_email\<close>.  \<open>get_email_from_token\<close> (missing \<open>src/services/auth.py\<close>) is a
  parameter that returns the email of the token or raises.
\<close>

definition confirmed_email ::
    "(str \<Rightarrow> error + str) \<Rightarrow> str \<Rightarrow> database \<Rightarrow> (error + nat \<times> str) \<times> database" where
  "confirmed_email get_email_from_token token db =
     (case get_email_from_token token of
        Inl e \<Rightarrow> (Inl e, db)
      | Inr email \<Rightarrow>
          (case UserService_get_user_by_email email db of
             Inl e \<Rightarrow> (Inl e, db)
           | Inr None \<Rightarrow> (Inl (HTTPException 400 (py ''Verification error'')), db)
           | Inr (Some user) \<Rightarrow>
               if u_is_verified user
               then (Inr (200, py ''Your email is already verified''), db)
               else (case UserService_confirm_email email db of
                       (Inl e, db') \<Rightarrow> (Inl e, db')
                     | (Inr u, db') \<Rightarrow> (Inr (200, py ''Email verified successfully''), db'))))"

text \<open>
  \<open>request_email\<close>: the response and the background tasks it schedules.  It does not
  write to the store.
\<close>

definition request_email ::
    "str \<Rightarrow> str \<Rightarrow> database \<Rightarrow> (error + nat \<times> str) \<times> task list" where
  "request_email email base_url db =
     (case UserService_get_user_by_email email db of
        Inl e \<Rightarrow> (Inl e, [])
      | Inr None \<Rightarrow> (Inr (200, py ''Check your email for verification''), [])
      | Inr (Some user) \<Rightarrow>
          if u_is_verified user
          then (Inr (200, py ''Your email is already verified''), [])
          else (Inr (200, py ''Check your email for verification''),
                [send_email (u_email user) (u_username user) base_url]))"

section \<open>Calendar\<close>

text \<open>
  The arithmetic of \<open>datetime.date\<close> that the birthday validator and the birthday window
  use: the order of dates and the day after a date in the Gregorian calendar.
\<close>

definition date_less :: "date \<Rightarrow> date \<Rightarrow> bool" where
  "date_less a b \<longleftrightarrow>
     year a < year b \<or>
     (year a = year b \<and> (month a < month b \<or> (month a = month b \<and> day a < day b)))"

definition leap_year :: "nat \<Rightarrow> bool" where
  "leap_year y \<longleftrightarrow> (y mod 4 = 0 \<and> y mod 100 \<noteq> 0) \<or> y mod 400 = 0"

definition days_in_month :: "nat \<Rightarrow> nat \<Rightarrow> nat" where
  "days_in_month y m =
     (if m = 2 then (if leap_year y then 29 else 28)
      else if m = 4 \<or> m = 6 \<or> m = 9 \<or> m = 11 then 30 else 31)"

definition next_day :: "date \<Rightarrow> date" where
  "next_day d =
     (if day d < days_in_month (year d) (month d) then d\<lparr>day := Suc (day d)\<rparr>
      else if month d < 12 then d\<lparr>month := Suc (month d), day := 1\<rparr>
      else \<lparr>year = Suc (year d), month = 1, day = 1\<rparr>)"

fun add_days :: "date \<Rightarrow> nat \<Rightarrow> date" where
  "add_days d 0 = d"
| "add_days d (Suc n) = add_days (next_day d) n"

definition month_day :: "date \<Rightarrow> nat \<times> nat" where
  "month_day d = (month d, day d)"

section \<open>Contact repository\<close>

text \<open>
  Modelled from the spec: \<open>src/repository/contacts.py\<close> (class \<open>ContactRepository\<close>) is
  missing.  The spec gives the behaviour of the store: the duplicate check looks at all
  contacts ("globally, not just for this owner"), a created contact is linked to its
  owner, lookups are scoped to the owner, update replaces name, surname, email, phone,
  birthday and info and refreshes \<open>updated_at\<close>, removal deletes the row.  A write that
  violates a unique constraint of the migration fails at the commit and is rolled back.
\<close>

definition ContactRepository_is_contact_exists :: "str \<Rightarrow> str \<Rightarrow> User \<Rightarrow> database \<Rightarrow> bool" where
  "ContactRepository_is_contact_exists email phone user db =
     list_ex (\<lambda>c. c_email c = email \<or> c_phone c = phone) (contacts db)"

definition ContactRepository_create_contact ::
    "ContactModel \<Rightarrow> User \<Rightarrow> nat \<Rightarrow> database \<Rightarrow> (error + Contact) \<times> database" where
  "ContactRepository_create_contact body user now db =
     (let contact = \<lparr>c_id = contacts_id_seq db, c_name = cm_name body,
                      c_surname = cm_surname body, c_email = cm_email body,
                      c_phone = cm_phone body, c_birthday = cm_birthday body,
                      c_created_at = now, c_updated_at = None, c_info = cm_info body,
                      c_user_id = u_id user\<rparr>
      in if list_ex (\<lambda>c. c_email c = cm_email body \<or> c_phone c = cm_phone body) (contacts db)
         then (Inl IntegrityError, db)
         else (Inr contact,
               db\<lparr>contacts := contacts db @ [contact],
                  contacts_id_seq := Suc (contacts_id_seq db)\<rparr>))"

definition ContactRepository_get_contact_by_id :: "nat \<Rightarrow> User \<Rightarrow> database \<Rightarrow> Contact option" where
  "ContactRepository_get_contact_by_id contact_id user db =
     find (\<lambda>c. c_id c = contact_id \<and> c_user_id c = u_id user) (contacts db)"

definition ContactRepository_update_contact ::
    "nat \<Rightarrow> ContactModel \<Rightarrow> User \<Rightarrow> nat \<Rightarrow> database \<Rightarrow> (error + Contact option) \<times> database" where
  "ContactRepository_update_contact contact_id body user now db =
     (case ContactRepository_get_contact_by_id contact_id user db of
        None \<Rightarrow> (Inr None, db)
      | Some contact \<Rightarrow>
          (let updated = contact\<lparr>c_name := cm_name body, c_surname := cm_surname body,
                                  c_email := cm_email body, c_phone := cm_phone body,
                                  c_birthday := cm_birthday body, c_info := cm_info body,
                                  c_updated_at := Some now\<rparr>
           in if list_ex (\<lambda>c. c_id c \<noteq> contact_id \<and>
                               (c_email c = cm_email body \<or> c_phone c = cm_phone body))
                   (contacts db)
              then (Inl IntegrityError, db)
              else (Inr (Some updated),
                    db\<lparr>contacts := map (\<lambda>c. if c_id c = contact_id then updated else c)
                                        (contacts db)\<rparr>)))"

definition ContactRepository_remove_contact ::
    "nat \<Rightarrow> User \<Rightarrow> database \<Rightarrow> (error + Contact option) \<times> database" where
  "ContactRepository_remove_contact contact_id user db =
     (case ContactRepository_get_contact_by_id contact_id user db of
        None \<Rightarrow> (Inr None, db)
      | Some contact \<Rightarrow>
          (Inr (Some contact),
           db\<lparr>contacts := filter (\<lambda>c. c_id c \<noteq> contact_id) (contacts db)\<rparr>))"

text \<open>
  The month/day pairs of the dates \<open>today, today + 1, ..., today + days\<close>, and the
  owner's contacts whose birthday has one of them.
\<close>

fun birthday_window :: "date \<Rightarrow> nat \<Rightarrow> (nat \<times> nat) list" where
  "birthday_window today 0 = [month_day today]"
| "birthday_window today (Suc days) = month_day today # birthday_window (next_day today) days"

definition ContactRepository_get_upcoming_birthdays ::
    "nat \<Rightarrow> User \<Rightarrow> date \<Rightarrow> database \<Rightarrow> Contact list" where
  "ContactRepository_get_upcoming_birthdays days user today db =
     filter (\<lambda>c. c_user_id c = u_id user \<and>
                 month_day (c_birthday c) \<in> set (birthday_window today days))
       (contacts db)"

section \<open>Contact service (\<open>src/services/contacts.py\<close>)\<close>

text \<open>
  \<open>create_contact\<close>; in the detail of its exception the email and the phone stand between
  apostrophes (code point 39).
\<close>

definition ContactService_create_contact ::
    "ContactModel \<Rightarrow> User \<Rightarrow> nat \<Rightarrow> database \<Rightarrow> (error + Contact) \<times> database" where
  "ContactService_create_contact body user now db =
     (if ContactRepository_is_contact_exists (cm_email body) (cm_phone body) user db
      then (Inl (HTTPException 400
                  (py ''Contact with '' @ [39] @ cm_email body @ [39]
                   @ py '' email or '' @ [39] @ cm_phone body @ [39]
                   @ py '' phone number already exists.'')), db)
      else ContactRepository_create_contact body user now db)"

definition ContactService_get_contact :: "nat \<Rightarrow> User \<Rightarrow> database \<Rightarrow> error + Contact" where
  "ContactService_get_contact contact_id user db =
     (case ContactRepository_get_contact_by_id contact_id user db of
        None \<Rightarrow> Inl (HTTPException 404 (py ''Contact not found''))
      | Some contact \<Rightarrow> Inr contact)"

definition ContactService_update_contact ::
    "nat \<Rightarrow> ContactModel \<Rightarrow> User \<Rightarrow> nat \<Rightarrow> database \<Rightarrow> (error + Contact) \<times> database" where
  "ContactService_update_contact contact_id body user now db =
     (case ContactRepository_update_contact contact_id body user now db of
        (Inl e, db') \<Rightarrow> (Inl e, db')
      | (Inr None, db') \<Rightarrow> (Inl (HTTPException 404 (py ''Contact not found'')), db')
      | (Inr (Some updated_contact), db') \<Rightarrow> (Inr updated_contact, db'))"

definition ContactService_remove_contact ::
    "nat \<Rightarrow> User \<Rightarrow> database \<Rightarrow> (error + Contact) \<times> database" where
  "ContactService_remove_contact contact_id user db =
     (case ContactRepository_remove_contact contact_id user db of
        (Inl e, db') \<Rightarrow> (Inl e, db')
      | (Inr None, db') \<Rightarrow> (Inl (HTTPException 404 (py ''Contact not found'')), db')
      | (Inr (Some deleted_contact), db') \<Rightarrow> (Inr deleted_contact, db'))"

definition ContactService_get_upcoming_birthdays ::
    "nat \<Rightarrow> User \<Rightarrow> date \<Rightarrow> database \<Rightarrow> Contact list" where
  "ContactService_get_upcoming_birthdays days user today db =
     ContactRepository_get_upcoming_birthdays days user today db"

section \<open>Request validation (\<open>src/schemas.py\<close>)\<close>

text \<open>
  \<open>validate_phone\<close> applies \<open>re.match\<close> with the pattern \<open>^\+?[1-9]\d{1,14}$\<close> to a \<open>str\<close>,
  without the \<open>re.ASCII\<close> flag.  The elements of the pattern, as Python matches them:
  \<^item> \<open>\d\<close> matches every code point that the Unicode database classifies as a decimal
    digit.  Below 128 these are the ten ASCII digits; the classification of the other
    code points is the table \<open>nd\<close>, a parameter;
  \<^item> \<open>[1-9]\<close> matches the code points of the characters 1 to 9 and no other;
  \<^item> \<open>$\<close> matches at the end of the string and before a newline that ends the string;
  \<^item> \<open>\d{1,14}\<close> may take any number of digits from 1 to 14 and \<open>\+?\<close> may take the plus
    sign or not, and the match succeeds when some choice does.
\<close>

definition unicode_decimal :: "(nat \<Rightarrow> bool) \<Rightarrow> nat \<Rightarrow> bool" where
  "unicode_decimal nd c \<longleftrightarrow> (if c < 128 then 48 \<le> c \<and> c \<le> 57 else nd c)"

definition digit_1_9 :: "nat \<Rightarrow> bool" where
  "digit_1_9 c \<longleftrightarrow> 49 \<le> c \<and> c \<le> 57"

definition at_end :: "str \<Rightarrow> bool" where
  "at_end s \<longleftrightarrow> s = [] \<or> s = [10]"

text \<open>\<open>\d{1,14}$\<close>: for some \<open>k\<close> from 1 to 14, \<open>k\<close> digits and then the end.\<close>

definition digits_then_end :: "(nat \<Rightarrow> bool) \<Rightarrow> str \<Rightarrow> bool" where
  "digits_then_end nd s \<longleftrightarrow>
     list_ex (\<lambda>k. k \<le> length s \<and> list_all (unicode_decimal nd) (take k s) \<and>
                   at_end (drop k s)) [1..<15]"

text \<open>\<open>[1-9]\d{1,14}$\<close>.\<close>

definition from_first_digit :: "(nat \<Rightarrow> bool) \<Rightarrow> str \<Rightarrow> bool" where
  "from_first_digit nd s \<longleftrightarrow>
     (case s of [] \<Rightarrow> False | c # r \<Rightarrow> digit_1_9 c \<and> digits_then_end nd r)"

text \<open>\<open>^\+?[1-9]\d{1,14}$\<close>: with the plus sign taken, or without.\<close>

definition phone_regex_match :: "(nat \<Rightarrow> bool) \<Rightarrow> str \<Rightarrow> bool" where
  "phone_regex_match nd v \<longleftrightarrow>
     (case v of [] \<Rightarrow> False | c # r \<Rightarrow> c = 43 \<and> from_first_digit nd r) \<or>
     from_first_digit nd v"

text \<open>
  The international format as a description of the whole string: an optional plus sign,
  a digit from 1 to 9, then 1 to 14 decimal digits, and nothing else.
\<close>

definition international_format :: "(nat \<Rightarrow> bool) \<Rightarrow> str \<Rightarrow> bool" where
  "international_format nd v \<longleftrightarrow>
     (\<exists>sign d ds. v = sign @ d # ds \<and> (sign = [] \<or> sign = py ''+'') \<and> digit_1_9 d \<and>
        (\<forall>c \<in> set ds. unicode_decimal nd c) \<and> 1 \<le> length ds \<and> length ds \<le> 14)"

text \<open>
  The two validator methods: each returns the value or raises \<open>ValueError\<close>, which
  pydantic reports as a validation error of that field.
\<close>

definition validate_phone :: "(nat \<Rightarrow> bool) \<Rightarrow> str \<Rightarrow> str option" where
  "validate_phone nd v = (if \<not> phone_regex_match nd v then None else Some v)"

definition validate_birthday :: "date \<Rightarrow> date \<Rightarrow> date option" where
  "validate_birthday today v = (if date_less today v then None else Some v)"

text \<open>
  The field declarations.  A \<open>str\<close> field is checked against \<open>min_length\<close> and
  \<open>max_length\<close> first and handed to its validator method only when it passes.
  \<open>email_valid\<close> is the syntax check of \<open>EmailStr\<close>, a parameter.
\<close>

definition length_between :: "nat \<Rightarrow> nat \<Rightarrow> str \<Rightarrow> bool" where
  "length_between lo hi s \<longleftrightarrow> lo \<le> length s \<and> length s \<le> hi"

definition name_ok :: "str \<Rightarrow> bool" where
  "name_ok s \<longleftrightarrow> length_between 2 50 s"

definition email_ok :: "(str \<Rightarrow> bool) \<Rightarrow> str \<Rightarrow> bool" where
  "email_ok email_valid s \<longleftrightarrow> email_valid s \<and> length_between 7 100 s"

definition phone_ok :: "(nat \<Rightarrow> bool) \<Rightarrow> str \<Rightarrow> bool" where
  "phone_ok nd s \<longleftrightarrow> length_between 7 20 s \<and> validate_phone nd s = Some s"

definition birthday_ok :: "date \<Rightarrow> date \<Rightarrow> bool" where
  "birthday_ok today d \<longleftrightarrow> validate_birthday today d = Some d"

definition info_ok :: "str option \<Rightarrow> bool" where
  "info_ok i \<longleftrightarrow> (case i of None \<Rightarrow> True | Some s \<Rightarrow> length s \<le> 500)"

text \<open>
  Construction of a \<open>ContactModel\<close> from a request body: the names of the fields that
  fail are collected, and the model exists only when there is none.
\<close>

definition ContactModel_errors ::
    "(nat \<Rightarrow> bool) \<Rightarrow> (str \<Rightarrow> bool) \<Rightarrow> date \<Rightarrow> ContactModel \<Rightarrow> str list" where
  "ContactModel_errors nd email_valid today body =
     (if name_ok (cm_name body) then [] else [py ''name'']) @
     (if name_ok (cm_surname body) then [] else [py ''surname'']) @
     (if email_ok email_valid (cm_email body) then [] else [py ''email'']) @
     (if phone_ok nd (cm_phone body) then [] else [py ''phone'']) @
     (if birthday_ok today (cm_birthday body) then [] else [py ''birthday'']) @
     (if info_ok (cm_info body) then [] else [py ''info''])"

definition ContactModel_validate ::
    "(nat \<Rightarrow> bool) \<Rightarrow> (str \<Rightarrow> bool) \<Rightarrow> date \<Rightarrow> ContactModel \<Rightarrow> error + ContactModel" where
  "ContactModel_validate nd email_valid today body =
     (if ContactModel_errors nd email_valid today body = [] then Inr body
      else Inl (RequestValidationError (ContactModel_errors nd email_valid today body)))"

text \<open>
  Modelled from the spec: \<open>src/api/contacts.py\<close> is missing.  "Validation errors (field
  format, length, future birthday, phone pattern) are rejected before reaching
  services": the create and update endpoints build the \<open>ContactModel\<close> from the request
  body and call the contact service only with a model that passed validation.
\<close>

definition create_contact_endpoint ::
    "(nat \<Rightarrow> bool) \<Rightarrow> (str \<Rightarrow> bool) \<Rightarrow> date \<Rightarrow> ContactModel \<Rightarrow> User \<Rightarrow> nat \<Rightarrow> database
      \<Rightarrow> (error + Contact) \<times> database" where
  "create_contact_endpoint nd email_valid today raw user now db =
     (case ContactModel_validate nd email_valid today raw of
        Inl e \<Rightarrow> (Inl e, db)
      | Inr body \<Rightarrow> ContactService_create_contact body user now db)"

definition update_contact_endpoint ::
    "(nat \<Rightarrow> bool) \<Rightarrow> (str \<Rightarrow> bool) \<Rightarrow> date \<Rightarrow> nat \<Rightarrow> ContactModel \<Rightarrow> User \<Rightarrow> nat
      \<Rightarrow> database \<Rightarrow> (error + Contact) \<times> database" where
  "update_contact_endpoint nd email_valid today contact_id raw user now db =
     (case ContactModel_validate nd email_valid today raw of
        Inl e \<Rightarrow> (Inl e, db)
      | Inr body \<Rightarrow> ContactService_update_contact contact_id body user now db)"

section \<open>Token service\<close>

text \<open>
  Modelled from the spec: \<open>src/services/auth.py\<close> (token creation and decoding) is
  missing.  The spec: "\<open>issue(claims: {sub: string}, ttl_seconds) -> token_string\<close>, signed
  with a server secret", "\<open>decode(token_string) -> claims\<close>, fails with \<open>InvalidToken\<close> if
  signature invalid or expired".  A token carries its claims, its expiry time and a
  signature over both; \<open>sign\<close> is the keyed signature primitive, a parameter; times are
  seconds.  A token counts as expired from its expiry time on.
\<close>

record claims =
  sub :: str

record token_string =
  tok_claims :: claims
  tok_exp :: int
  tok_signature :: str

definition issue ::
    "(str \<Rightarrow> claims \<times> int \<Rightarrow> str) \<Rightarrow> str \<Rightarrow> int \<Rightarrow> claims \<Rightarrow> int \<Rightarrow> token_string" where
  "issue sign secret now cl ttl_seconds =
     \<lparr>tok_claims = cl, tok_exp = now + ttl_seconds,
      tok_signature = sign secret (cl, now + ttl_seconds)\<rparr>"

definition decode ::
    "(str \<Rightarrow> claims \<times> int \<Rightarrow> str) \<Rightarrow> str \<Rightarrow> int \<Rightarrow> token_string \<Rightarrow> error + claims" where
  "decode sign secret now tok =
     (if tok_signature tok \<noteq> sign secret (tok_claims tok, tok_exp tok) then Inl InvalidToken
      else if tok_exp tok \<le> now then Inl InvalidToken
      else Inr (tok_claims tok))"

section \<open>The exposed operations as one transition function\<close>

text \<open>
  The services the handlers depend on, collected: password hashing and verification,
  token creation and decoding, the avatar a new user gets, the email syntax check, and
  the table of the decimal digits beyond ASCII.
\<close>

record environment =
  get_password_hash :: "str \<Rightarrow> str"
  verify_password :: "str \<Rightarrow> str \<Rightarrow> bool"
  create_access_token :: "(str \<times> str) list \<Rightarrow> str"
  get_email_from_token :: "str \<Rightarrow> error + str"
  new_avatar :: "str option"
  email_valid :: "str \<Rightarrow> bool"
  decimal_table :: "nat \<Rightarrow> bool"

text \<open>
  A request to one of the operations that this model covers, with its arguments.
\<close>

datatype request =
    Register UserCreate str
  | Login str str
  | ConfirmedEmail str
  | RequestEmail str str
  | UpdateAvatarUrl str str
  | CreateContact ContactModel User
  | GetContact nat User
  | UpdateContact nat ContactModel User
  | RemoveContact nat User
  | UpcomingBirthdays nat User

text \<open>
  The store after a request made at time \<open>now\<close> on the day \<open>today\<close>.  Login, the resend
  request and the two contact queries do not write.
\<close>

fun handle :: "environment \<Rightarrow> nat \<Rightarrow> date \<Rightarrow> request \<Rightarrow> database \<Rightarrow> database" where
  "handle env now today (Register user base_url) db =
     fst (snd (register_user (get_password_hash env) (new_avatar env) now user base_url db))"
| "handle env now today (Login username password) db = db"
| "handle env now today (ConfirmedEmail token) db =
     snd (confirmed_email (get_email_from_token env) token db)"
| "handle env now today (RequestEmail email base_url) db = db"
| "handle env now today (UpdateAvatarUrl email url) db =
     snd (UserRepository_update_avatar_url email url db)"
| "handle env now today (CreateContact raw user) db =
     snd (create_contact_endpoint (decimal_table env) (email_valid env) today raw user now
            db)"
| "handle env now today (GetContact contact_id user) db = db"
| "handle env now today (UpdateContact contact_id raw user) db =
     snd (update_contact_endpoint (decimal_table env) (email_valid env) today contact_id raw user now
            db)"
| "handle env now today (RemoveContact contact_id user) db =
     snd (ContactService_remove_contact contact_id user db)"
| "handle env now today (UpcomingBirthdays days user) db = db"

fun handle_all :: "environment \<Rightarrow> (nat \<times> date \<times> request) list \<Rightarrow> database \<Rightarrow> database" where
  "handle_all env [] db = db"
| "handle_all env ((now, today, req) # reqs) db = handle_all env reqs (handle env now today req db)"

text \<open>
  Every user that is verified in the first store is still there, with the same id,
  username and email, and verified in the second.
\<close>

definition verified_users_kept :: "database \<Rightarrow> database \<Rightarrow> bool" where
  "verified_users_kept db db' \<longleftrightarrow>
     (\<forall>u \<in> set (users db). u_is_verified u \<longrightarrow>
        (\<exists>v \<in> set (users db'). u_id v = u_id u \<and> u_username v = u_username u \<and>
           u_email v = u_email u \<and> u_is_verified v))"

section \<open>Example data\<close>

definition alice :: User where
  "alice = \<lparr>u_id = 1, u_username = py ''alice'', u_email = py ''alice@x.com'',
            u_hashed_password = py ''#secret1'', u_created_at = 0, u_is_verified = False,
            u_avatar_url = None\<rparr>"

definition db_alice :: database where
  "db_alice = \<lparr>users = [alice], contacts = [], users_id_seq = 2, contacts_id_seq = 1\<rparr>"

definition bob :: User where
  "bob = \<lparr>u_id = 2, u_username = py ''bob'', u_email = py ''bob@x.com'',
          u_hashed_password = py ''#hunter22'', u_created_at = 3, u_is_verified = True,
          u_avatar_url = None\<rparr>"

definition lee :: Contact where
  "lee = \<lparr>c_id = 1, c_name = py ''Bob'', c_surname = py ''Lee'', c_email = py ''lee@x.com'',
          c_phone = py ''+15551234567'', c_birthday = \<lparr>year = 1990, month = 1, day = 3\<rparr>,
          c_created_at = 4, c_updated_at = None, c_info = None, c_user_id = 1\<rparr>"

definition kim :: Contact where
  "kim = \<lparr>c_id = 2, c_name = py ''Ann'', c_surname = py ''Kim'', c_email = py ''kim@x.com'',
          c_phone = py ''+15557654321'', c_birthday = \<lparr>year = 1985, month = 1, day = 6\<rparr>,
          c_created_at = 5, c_updated_at = None, c_info = None, c_user_id = 2\<rparr>"

definition db_two :: database where
  "db_two = \<lparr>users = [alice, bob], contacts = [lee, kim], users_id_seq = 3,
             contacts_id_seq = 3\<rparr>"

definition example_hash :: "str \<Rightarrow> str" where
  "example_hash p = py ''#'' @ p"

definition example_verify :: "str \<Rightarrow> str \<Rightarrow> bool" where
  "example_verify p h \<longleftrightarrow> h = py ''#'' @ p"

definition example_token :: "(str \<times> str) list \<Rightarrow> str" where
  "example_token data = concat (map (\<lambda>(k, v). k @ py ''='' @ v) data)"

definition example_email_from_token :: "str \<Rightarrow> error + str" where
  "example_email_from_token t = (if t = [] then Inl (HTTPException 422 (py ''Invalid token'')) else Inr t)"

definition example_email_valid :: "str \<Rightarrow> bool" where
  "example_email_valid s \<longleftrightarrow> set (py ''@'') \<subseteq> set s"

text \<open>A part of the table of decimal digits beyond ASCII: the Arabic-Indic digits.\<close>

definition example_nd :: "nat \<Rightarrow> bool" where
  "example_nd c \<longleftrightarrow> 1632 \<le> c \<and> c \<le> 1641"

definition example_env :: environment where
  "example_env = \<lparr>get_password_hash = example_hash, verify_password = example_verify,
                  create_access_token = example_token,
                  get_email_from_token = example_email_from_token,
                  new_avatar = None, email_valid = example_email_valid,
                  decimal_table = example_nd\<rparr>"

definition example_sign :: "str \<Rightarrow> claims \<times> int \<Rightarrow> str" where
  "example_sign secret p = secret @ sub (fst p)"

definition may_body :: ContactModel where
  "may_body = \<lparr>cm_name = py ''Eve'', cm_surname = py ''May'', cm_email = py ''may@x.com'',
               cm_phone = py ''+15551234567'', cm_birthday = \<lparr>year = 1990, month = 5, day = 1\<rparr>,
               cm_info = None, cm_user_id = 2\<rparr>"

definition short_phone_body :: ContactModel where
  "short_phone_body = may_body\<lparr>cm_phone := py ''+12345''\<rparr>"

definition future_body :: ContactModel where
  "future_body = may_body\<lparr>cm_birthday := \<lparr>year = 2025, month = 1, day = 2\<rparr>\<rparr>"

text \<open>A plus sign, the digit 1 and six Arabic-Indic digits.\<close>

definition arabic_phone :: str where
  "arabic_phone = [43, 49, 1632, 1633, 1634, 1635, 1636, 1637]"

section \<open>Lookups under the unique constraints\<close>

lemma filter_key_absent:
  "k \<notin> f ` set xs \<Longrightarrow> filter (\<lambda>y. f y = k) xs = []"
  by (induction xs) auto

lemma filter_key_unique:
  "distinct (map f xs) \<Longrightarrow> x \<in> set xs \<Longrightarrow> filter (\<lambda>y. f y = f x) xs = [x]"
proof (induction xs)
  case Nil
  then show ?case by simp
next
  case (Cons a xs)
  show ?case
  proof (cases "a = x")
    case True
    with Cons.prems have "f x \<notin> f ` set xs" by simp
    then have "filter (\<lambda>y. f y = f x) xs = []" by (rule filter_key_absent)
    with True show ?thesis by simp
  next
    case False
    with Cons.prems have "x \<in> set xs" and "f a \<noteq> f x" by auto
    with Cons show ?thesis by simp
  qed
qed

lemma distinct_map_eq:
  "distinct (map f xs) \<Longrightarrow> x \<in> set xs \<Longrightarrow> y \<in> set xs \<Longrightarrow> f x = f y \<Longrightarrow> x = y"
  by (auto simp: distinct_map dest: inj_onD)

lemma get_user_by_username_present:
  "unique_constraints db \<Longrightarrow> u \<in> set (users db) \<Longrightarrow>
   UserService_get_user_by_username (u_username u) db = Inr (Some u)"
  by (simp add: UserService_get_user_by_username_def UserRepository_get_user_by_username_def
      unique_constraints_def filter_key_unique)

lemma get_user_by_username_absent:
  "username \<notin> u_username ` set (users db) \<Longrightarrow>
   UserService_get_user_by_username username db = Inr None"
  by (simp add: UserService_get_user_by_username_def UserRepository_get_user_by_username_def
      filter_key_absent)

lemma get_user_by_email_present:
  "unique_constraints db \<Longrightarrow> u \<in> set (users db) \<Longrightarrow>
   UserService_get_user_by_email (u_email u) db = Inr (Some u)"
  by (simp add: UserService_get_user_by_email_def UserRepository_get_user_by_email_def
      unique_constraints_def filter_key_unique)

lemma get_user_by_email_absent:
  "email \<notin> u_email ` set (users db) \<Longrightarrow>
   UserService_get_user_by_email email db = Inr None"
  by (simp add: UserService_get_user_by_email_def UserRepository_get_user_by_email_def
      filter_key_absent)

lemma unique_constraints_db_two: "unique_constraints db_two"
  by (simp add: unique_constraints_def db_two_def alice_def bob_def lee_def kim_def)

section \<open>Registration\<close>

text \<open>
  C1.  A registration whose email equals that of an existing user should fail with
  status 409.  In \<open>register_user\<close> the 409 is raised inside the \<open>try\<close> block and caught by
  its own \<open>except Exception\<close>: the request \<open>{bob, alice@x.com, secret1}\<close> against a store
  that holds alice gets status 500, and nothing is persisted.
\<close>

theorem register_user_conflict_is_500:
  "register_user h None 5
      \<lparr>uc_username = py ''bob'', uc_email = py ''alice@x.com'', uc_password = py ''secret1''\<rparr>
      (py ''http://testserver/'') db_alice
   = (Inl (HTTPException 500 (py ''Internal server error'')), db_alice, [])"
  by (simp add: register_user_def register_user_try_def UserService_get_user_by_email_def
      UserRepository_get_user_by_email_def db_alice_def alice_def)

section \<open>Login\<close>

text \<open>
  C2.  Under the unique constraints of the store, \<open>login_user\<close> fails with status 401
  exactly when no user has the given username, or the password does not verify against
  the stored hash of that user, or that user is not verified; for a verified user with a
  matching password it returns status 200 and a bearer token created from the claims
  \<open>{"sub": username of that user}\<close>.
\<close>

theorem login_user_unauthorized_iff:
  assumes "unique_constraints db"
  shows "((\<exists>detail. login_user vp cat username password db = Inl (HTTPException 401 detail)) \<longleftrightarrow>
            (username \<notin> u_username ` set (users db) \<or>
             (\<exists>u \<in> set (users db). u_username u = username \<and>
                (\<not> vp password (u_hashed_password u) \<or> \<not> u_is_verified u)))) \<and>
         (\<forall>u \<in> set (users db). u_username u = username \<and> vp password (u_hashed_password u) \<and>
              u_is_verified u \<longrightarrow>
            login_user vp cat username password db =
              Inr (200, \<lparr>access_token = cat [(py ''sub'', u_username u)], token_type = py ''bearer''\<rparr>))"
proof (cases "username \<in> u_username ` set (users db)")
  case False
  then have "login_user vp cat username password db =
      Inl (HTTPException 401 (py ''Incorrect login or password''))"
    by (simp add: login_user_def get_user_by_username_absent)
  with False show ?thesis by auto
next
  case True
  then obtain u where u: "u \<in> set (users db)" "u_username u = username" by auto
  have look: "UserService_get_user_by_username username db = Inr (Some u)"
    using get_user_by_username_present [OF assms u(1)] u(2) by simp
  have uniq: "v = u" if "v \<in> set (users db)" "u_username v = username" for v
    using assms that u distinct_map_eq [of u_username "users db" v u]
    by (simp add: unique_constraints_def)
  have res: "login_user vp cat username password db =
      (if \<not> vp password (u_hashed_password u)
       then Inl (HTTPException 401 (py ''Incorrect login or password''))
       else if \<not> u_is_verified u then Inl (HTTPException 401 (py ''Email not verified''))
       else Inr (200, \<lparr>access_token = cat [(py ''sub'', u_username u)], token_type = py ''bearer''\<rparr>))"
    by (simp add: login_user_def look)
  have left: "(\<exists>detail. login_user vp cat username password db = Inl (HTTPException 401 detail)) \<longleftrightarrow>
      (\<not> vp password (u_hashed_password u) \<or> \<not> u_is_verified u)"
    by (simp add: res)
  have right: "(\<exists>w \<in> set (users db). u_username w = username \<and>
                (\<not> vp password (u_hashed_password w) \<or> \<not> u_is_verified w)) \<longleftrightarrow>
      (\<not> vp password (u_hashed_password u) \<or> \<not> u_is_verified u)"
    using u uniq by blast
  have ok: "\<forall>w \<in> set (users db). u_username w = username \<and> vp password (u_hashed_password w) \<and>
              u_is_verified w \<longrightarrow>
            login_user vp cat username password db =
              Inr (200, \<lparr>access_token = cat [(py ''sub'', u_username w)], token_type = py ''bearer''\<rparr>)"
  proof (intro ballI impI)
    fix w assume "w \<in> set (users db)"
      and h: "u_username w = username \<and> vp password (u_hashed_password w) \<and> u_is_verified w"
    then have "w = u" using uniq by blast
    with h show "login_user vp cat username password db =
              Inr (200, \<lparr>access_token = cat [(py ''sub'', u_username w)], token_type = py ''bearer''\<rparr>)"
      by (simp add: res)
  qed
  from True left right ok show ?thesis by simp
qed

text \<open>
  In the example store bob is verified and logs in with his password; alice has the
  right password but is not verified, and gets 401.
\<close>

theorem login_user_unauthorized_iff_witness:
  "unique_constraints db_two \<and>
   login_user example_verify example_token (py ''bob'') (py ''hunter22'') db_two =
     Inr (200, \<lparr>access_token = py ''sub=bob'', token_type = py ''bearer''\<rparr>) \<and>
   (\<exists>detail. login_user example_verify example_token (py ''alice'') (py ''secret1'') db_two =
     Inl (HTTPException 401 detail))"
proof -
  have b: "login_user example_verify example_token (py ''bob'') (py ''hunter22'') db_two =
     Inr (200, \<lparr>access_token = py ''sub=bob'', token_type = py ''bearer''\<rparr>)"
    using login_user_unauthorized_iff [OF unique_constraints_db_two,
        of example_verify example_token "py ''bob''" "py ''hunter22''"]
    by (simp add: db_two_def alice_def bob_def example_verify_def example_token_def)
  have a: "\<exists>detail. login_user example_verify example_token (py ''alice'') (py ''secret1'') db_two =
     Inl (HTTPException 401 detail)"
    using login_user_unauthorized_iff [OF unique_constraints_db_two,
        of example_verify example_token "py ''alice''" "py ''secret1''"]
    by (simp add: db_two_def alice_def bob_def example_verify_def)
  from a b unique_constraints_db_two show ?thesis by simp
qed

section \<open>Resending the verification email\<close>

text \<open>
  C3 as stated fails: in the example store \<open>bob@x.com\<close> belongs to an existing (verified)
  user and \<open>nobody@x.com\<close> to no user, and the two responses differ.
\<close>

theorem request_email_response_differs:
  "py ''bob@x.com'' \<in> u_email ` set (users db_two) \<and>
   py ''nobody@x.com'' \<notin> u_email ` set (users db_two) \<and>
   fst (request_email (py ''bob@x.com'') (py ''http://testserver/'') db_two) =
     Inr (200, py ''Your email is already verified'') \<and>
   fst (request_email (py ''nobody@x.com'') (py ''http://testserver/'') db_two) =
     Inr (200, py ''Check your email for verification'') \<and>
   fst (request_email (py ''bob@x.com'') (py ''http://testserver/'') db_two) \<noteq>
     fst (request_email (py ''nobody@x.com'') (py ''http://testserver/'') db_two)"
  by (simp add: request_email_def UserService_get_user_by_email_def
      UserRepository_get_user_by_email_def db_two_def alice_def bob_def)

text \<open>
  C3, amended.  Under the unique constraints of the store: a request with an email of no
  user and a request with the email of an existing user who is not verified get the same
  response, status 200 with the message to check the mailbox, and only the second
  schedules \<open>send_email\<close> as a background task; a request with the email of a verified
  user gets status 200 with the message that the email is already verified, and
  schedules nothing.
\<close>

theorem request_email_response:
  assumes "unique_constraints db" and "u \<in> set (users db)"
    and "absent \<notin> u_email ` set (users db)"
  shows "request_email absent base_url db =
           (Inr (200, py ''Check your email for verification''), []) \<and>
         (\<not> u_is_verified u \<longrightarrow>
            fst (request_email (u_email u) base_url db) =
              fst (request_email absent base_url db) \<and>
            snd (request_email (u_email u) base_url db) =
              [send_email (u_email u) (u_username u) base_url]) \<and>
         (u_is_verified u \<longrightarrow>
            request_email (u_email u) base_url db =
              (Inr (200, py ''Your email is already verified''), []))"
proof -
  have none: "UserService_get_user_by_email absent db = Inr None"
    using assms(3) by (rule get_user_by_email_absent)
  have some: "UserService_get_user_by_email (u_email u) db = Inr (Some u)"
    using assms(1,2) by (rule get_user_by_email_present)
  show ?thesis
    by (simp add: request_email_def none some)
qed

theorem request_email_response_witness:
  "unique_constraints db_two \<and> alice \<in> set (users db_two) \<and> \<not> u_is_verified alice \<and>
   bob \<in> set (users db_two) \<and> u_is_verified bob \<and>
   py ''nobody@x.com'' \<notin> u_email ` set (users db_two) \<and>
   request_email (py ''nobody@x.com'') (py ''http://testserver/'') db_two =
     (Inr (200, py ''Check your email for verification''), []) \<and>
   request_email (py ''alice@x.com'') (py ''http://testserver/'') db_two =
     (Inr (200, py ''Check your email for verification''),
      [send_email (py ''alice@x.com'') (py ''alice'') (py ''http://testserver/'')]) \<and>
   request_email (py ''bob@x.com'') (py ''http://testserver/'') db_two =
     (Inr (200, py ''Your email is already verified''), [])"
proof -
  have ma: "alice \<in> set (users db_two)" and mb: "bob \<in> set (users db_two)"
    by (simp_all add: db_two_def)
  have n: "py ''nobody@x.com'' \<notin> u_email ` set (users db_two)"
    by (simp add: db_two_def alice_def bob_def)
  have va: "\<not> u_is_verified alice" and vb: "u_is_verified bob"
    by (simp_all add: alice_def bob_def)
  have ea: "u_email alice = py ''alice@x.com''" and eb: "u_email bob = py ''bob@x.com''"
    and na: "u_username alice = py ''alice''"
    by (simp_all add: alice_def bob_def)
  note a = request_email_response [OF unique_constraints_db_two ma n, of "py ''http://testserver/''"]
  note b = request_email_response [OF unique_constraints_db_two mb n, of "py ''http://testserver/''"]
  have r1: "request_email (py ''nobody@x.com'') (py ''http://testserver/'') db_two =
     (Inr (200, py ''Check your email for verification''), [])"
    using a by simp
  have r2: "request_email (py ''alice@x.com'') (py ''http://testserver/'') db_two =
     (Inr (200, py ''Check your email for verification''),
      [send_email (py ''alice@x.com'') (py ''alice'') (py ''http://testserver/'')])"
    using a va by (simp add: ea na prod_eq_iff)
  have r3: "request_email (py ''bob@x.com'') (py ''http://testserver/'') db_two =
     (Inr (200, py ''Your email is already verified''), [])"
    using b vb by (simp add: eb)
  from unique_constraints_db_two ma mb n va vb r1 r2 r3 show ?thesis by simp
qed

section \<open>Avatar update\<close>

lemma map_update_by_id:
  assumes "distinct (map u_id xs)" and "u \<in> set xs"
  shows "map (\<lambda>v. if u_id v = u_id u then g v else v) xs =
         map (\<lambda>v. if v = u then g u else v) xs"
proof (rule map_cong [OF refl])
  fix v assume "v \<in> set xs"
  then have "u_id v = u_id u \<longleftrightarrow> v = u"
    using assms distinct_map_eq [of u_id xs v u] by auto
  then show "(if u_id v = u_id u then g v else v) = (if v = u then g u else v)"
    by auto
qed

text \<open>
  C10.  Under the unique constraints of the store: with no user of that email
  \<open>update_avatar_url\<close> returns \<open>None\<close> and leaves the store as it is; with a user \<open>u\<close> of
  that email it returns \<open>u\<close> with the new avatar and every other field as before, and the
  store differs only in that row: the other rows, the contacts and the sequences are
  unchanged.
\<close>

theorem update_avatar_url_frame:
  assumes "unique_constraints db"
  shows "(email \<notin> u_email ` set (users db) \<longrightarrow>
            UserRepository_update_avatar_url email url db = (Inr None, db)) \<and>
         (\<forall>u \<in> set (users db). u_email u = email \<longrightarrow>
            UserRepository_update_avatar_url email url db =
              (Inr (Some (u\<lparr>u_avatar_url := Some url\<rparr>)),
               db\<lparr>users := map (\<lambda>v. if v = u then u\<lparr>u_avatar_url := Some url\<rparr> else v)
                               (users db)\<rparr>))"
proof (intro conjI impI ballI)
  assume "email \<notin> u_email ` set (users db)"
  then have "UserRepository_get_user_by_email email db = Inr None"
    using get_user_by_email_absent [of email db]
    by (simp add: UserService_get_user_by_email_def)
  then show "UserRepository_update_avatar_url email url db = (Inr None, db)"
    by (simp add: UserRepository_update_avatar_url_def)
next
  fix u assume u: "u \<in> set (users db)" and e: "u_email u = email"
  have look: "UserRepository_get_user_by_email email db = Inr (Some u)"
    using get_user_by_email_present [OF assms u] e
    by (simp add: UserService_get_user_by_email_def)
  have "distinct (map u_id (users db))"
    using assms by (simp add: unique_constraints_def)
  then have rows: "map (\<lambda>v. if u_id v = u_id u then v\<lparr>u_avatar_url := Some url\<rparr> else v) (users db) =
      map (\<lambda>v. if v = u then u\<lparr>u_avatar_url := Some url\<rparr> else v) (users db)"
    using u by (rule map_update_by_id)
  show "UserRepository_update_avatar_url email url db =
      (Inr (Some (u\<lparr>u_avatar_url := Some url\<rparr>)),
       db\<lparr>users := map (\<lambda>v. if v = u then u\<lparr>u_avatar_url := Some url\<rparr> else v) (users db)\<rparr>)"
    by (simp add: UserRepository_update_avatar_url_def look rows)
qed

theorem update_avatar_url_frame_witness:
  "unique_constraints db_two \<and> py ''nobody@x.com'' \<notin> u_email ` set (users db_two) \<and>
   bob \<in> set (users db_two) \<and> u_email bob = py ''bob@x.com'' \<and>
   UserRepository_update_avatar_url (py ''nobody@x.com'') (py ''http://img/1.png'') db_two =
     (Inr None, db_two) \<and>
   UserRepository_update_avatar_url (py ''bob@x.com'') (py ''http://img/1.png'') db_two =
     (Inr (Some (bob\<lparr>u_avatar_url := Some (py ''http://img/1.png'')\<rparr>)),
      db_two\<lparr>users := [alice, bob\<lparr>u_avatar_url := Some (py ''http://img/1.png'')\<rparr>]\<rparr>)"
proof -
  note t = update_avatar_url_frame [OF unique_constraints_db_two]
  have n: "py ''nobody@x.com'' \<notin> u_email ` set (users db_two)"
    by (simp add: db_two_def alice_def bob_def)
  have mb: "bob \<in> set (users db_two)" and eb: "u_email bob = py ''bob@x.com''"
    by (simp_all add: db_two_def bob_def)
  have ne: "alice \<noteq> bob"
    by (simp add: alice_def bob_def)
  have r1: "UserRepository_update_avatar_url (py ''nobody@x.com'') (py ''http://img/1.png'') db_two =
     (Inr None, db_two)"
    using t [of "py ''nobody@x.com''" "py ''http://img/1.png''"] n by simp
  have "UserRepository_update_avatar_url (py ''bob@x.com'') (py ''http://img/1.png'') db_two =
     (Inr (Some (bob\<lparr>u_avatar_url := Some (py ''http://img/1.png'')\<rparr>)),
      db_two\<lparr>users := map (\<lambda>v. if v = bob then bob\<lparr>u_avatar_url := Some (py ''http://img/1.png'')\<rparr> else v)
                               (users db_two)\<rparr>)"
    using t [of "py ''bob@x.com''" "py ''http://img/1.png''"] mb eb by blast
  moreover have "map (\<lambda>v. if v = bob then bob\<lparr>u_avatar_url := Some (py ''http://img/1.png'')\<rparr> else v)
                               (users db_two) = [alice, bob\<lparr>u_avatar_url := Some (py ''http://img/1.png'')\<rparr>]"
    using ne by (simp add: db_two_def)
  ultimately have r2: "UserRepository_update_avatar_url (py ''bob@x.com'') (py ''http://img/1.png'') db_two =
     (Inr (Some (bob\<lparr>u_avatar_url := Some (py ''http://img/1.png'')\<rparr>)),
      db_two\<lparr>users := [alice, bob\<lparr>u_avatar_url := Some (py ''http://img/1.png'')\<rparr>]\<rparr>)"
    by simp
  from unique_constraints_db_two n mb eb r1 r2 show ?thesis by simp
qed

section \<open>Email confirmation\<close>

lemma filter_email_map:
  assumes "\<And>v. u_email (g v) = u_email v"
  shows "filter (\<lambda>v. u_email v = e) (map g xs) = map g (filter (\<lambda>v. u_email v = e) xs)"
  by (induction xs) (simp_all add: assms)

lemma confirmed_email_repeat:
  "snd (confirmed_email g token (snd (confirmed_email g token db))) =
   snd (confirmed_email g token db)"
proof (cases "g token")
  case (Inl e)
  then show ?thesis by (simp add: confirmed_email_def)
next
  case (Inr email)
  show ?thesis
  proof (cases "filter (\<lambda>v. u_email v = email) (users db)")
    case Nil
    then show ?thesis
      using Inr by (simp add: confirmed_email_def UserService_get_user_by_email_def
          UserRepository_get_user_by_email_def)
  next
    case (Cons u rest)
    show ?thesis
    proof (cases rest)
      case (Cons w rest')
      with \<open>filter (\<lambda>v. u_email v = email) (users db) = u # rest\<close> show ?thesis
        using Inr by (simp add: confirmed_email_def UserService_get_user_by_email_def
            UserRepository_get_user_by_email_def)
    next
      case Nil
      with \<open>filter (\<lambda>v. u_email v = email) (users db) = u # rest\<close>
      have one: "filter (\<lambda>v. u_email v = email) (users db) = [u]" by simp
      show ?thesis
      proof (cases "u_is_verified u")
        case True
        then show ?thesis
          using Inr one by (simp add: confirmed_email_def UserService_get_user_by_email_def
              UserRepository_get_user_by_email_def)
      next
        case False
        let ?g = "\<lambda>v. if u_id v = u_id u then v\<lparr>u_is_verified := True\<rparr> else v"
        let ?db = "db\<lparr>users := map ?g (users db)\<rparr>"
        have first: "confirmed_email g token db = (Inr (200, py ''Email verified successfully''), ?db)"
          using Inr one False
          by (simp add: confirmed_email_def UserService_get_user_by_email_def
              UserService_confirm_email_def UserRepository_confirmed_email_def
              UserRepository_get_user_by_email_def)
        have "filter (\<lambda>v. u_email v = email) (users ?db) = map ?g [u]"
          using filter_email_map [of ?g email "users db"] one by simp
        then have again: "filter (\<lambda>v. u_email v = email) (users ?db) = [u\<lparr>u_is_verified := True\<rparr>]"
          by simp
        have "snd (confirmed_email g token ?db) = ?db"
          using Inr again
          by (simp add: confirmed_email_def UserService_get_user_by_email_def
              UserRepository_get_user_by_email_def)
        with first show ?thesis by simp
      qed
    qed
  qed
qed
lemma kept_same: "users db' = users db \<Longrightarrow> verified_users_kept db db'"
  by (auto simp: verified_users_kept_def)

lemma kept_append: "users db' = users db @ xs \<Longrightarrow> verified_users_kept db db'"
  by (auto simp: verified_users_kept_def)

lemma kept_map:
  assumes "users db' = map g (users db)"
    and "\<And>v. u_id (g v) = u_id v \<and> u_username (g v) = u_username v \<and>
             u_email (g v) = u_email v \<and> (u_is_verified v \<longrightarrow> u_is_verified (g v))"
  shows "verified_users_kept db db'"
  unfolding verified_users_kept_def
proof (intro ballI impI)
  fix u assume "u \<in> set (users db)" and "u_is_verified u"
  then have "g u \<in> set (users db')" and "u_is_verified (g u)"
    using assms by auto
  then show "\<exists>v \<in> set (users db'). u_id v = u_id u \<and> u_username v = u_username u \<and>
           u_email v = u_email u \<and> u_is_verified v"
    using assms(2) by blast
qed

lemma kept_trans:
  "verified_users_kept a b \<Longrightarrow> verified_users_kept b c \<Longrightarrow> verified_users_kept a c"
  unfolding verified_users_kept_def by (metis (no_types, lifting))

lemma register_user_users:
  "users (fst (snd (register_user h av now user base_url db))) = users db \<or>
   (\<exists>x. users (fst (snd (register_user h av now user base_url db))) = users db @ [x])"
  by (simp add: register_user_def register_user_try_def UserService_create_user_def
      UserRepository_create_user_def Let_def split: sum.splits option.splits)

lemma confirmed_email_users:
  "users (snd (confirmed_email g token db)) = users db \<or>
   (\<exists>i. users (snd (confirmed_email g token db)) =
      map (\<lambda>v. if u_id v = i then v\<lparr>u_is_verified := True\<rparr> else v) (users db))"
proof (cases "\<exists>email user. g token = Inr email \<and>
    UserRepository_get_user_by_email email db = Inr (Some user) \<and> \<not> u_is_verified user")
  case True
  then obtain email user where "g token = Inr email"
    and "UserRepository_get_user_by_email email db = Inr (Some user)" and "\<not> u_is_verified user"
    by blast
  then have "users (snd (confirmed_email g token db)) =
      map (\<lambda>v. if u_id v = u_id user then v\<lparr>u_is_verified := True\<rparr> else v) (users db)"
    by (simp add: confirmed_email_def UserService_confirm_email_def
        UserService_get_user_by_email_def UserRepository_confirmed_email_def)
  then show ?thesis by blast
next
  case False
  then have "users (snd (confirmed_email g token db)) = users db"
    by (auto simp: confirmed_email_def UserService_get_user_by_email_def
        split: sum.splits option.splits)
  then show ?thesis by simp
qed

lemma update_avatar_url_users:
  "users (snd (UserRepository_update_avatar_url email url db)) = users db \<or>
   (\<exists>i. users (snd (UserRepository_update_avatar_url email url db)) =
      map (\<lambda>v. if u_id v = i then v\<lparr>u_avatar_url := Some url\<rparr> else v) (users db))"
proof (cases "UserRepository_get_user_by_email email db")
  case (Inl e)
  then show ?thesis by (simp add: UserRepository_update_avatar_url_def)
next
  case (Inr r)
  show ?thesis
  proof (cases r)
    case None
    with Inr show ?thesis by (simp add: UserRepository_update_avatar_url_def)
  next
    case (Some user)
    with Inr have "users (snd (UserRepository_update_avatar_url email url db)) =
      map (\<lambda>v. if u_id v = u_id user then v\<lparr>u_avatar_url := Some url\<rparr> else v) (users db)"
      by (simp add: UserRepository_update_avatar_url_def)
    then show ?thesis by blast
  qed
qed

lemma create_contact_users:
  "users (snd (ContactService_create_contact body user now db)) = users db"
  by (simp add: ContactService_create_contact_def ContactRepository_create_contact_def Let_def)

lemma update_contact_users:
  "users (snd (ContactService_update_contact contact_id body user now db)) = users db"
  by (simp add: ContactService_update_contact_def ContactRepository_update_contact_def Let_def
      split: option.splits)

lemma remove_contact_users:
  "users (snd (ContactService_remove_contact contact_id user db)) = users db"
  by (simp add: ContactService_remove_contact_def ContactRepository_remove_contact_def
      split: option.splits)

lemma handle_kept: "verified_users_kept db (handle env now today req db)"
proof (cases req)
  case (Register user base_url)
  from register_user_users [of "get_password_hash env" "new_avatar env" now user base_url db]
  have "verified_users_kept db
      (fst (snd (register_user (get_password_hash env) (new_avatar env) now user base_url db)))"
  proof (elim disjE exE)
    assume "users (fst (snd (register_user (get_password_hash env) (new_avatar env) now user
        base_url db))) = users db"
    then show ?thesis by (rule kept_same)
  next
    fix x assume "users (fst (snd (register_user (get_password_hash env) (new_avatar env) now user
        base_url db))) = users db @ [x]"
    then show ?thesis by (rule kept_append)
  qed
  with Register show ?thesis by simp
next
  case (ConfirmedEmail token)
  from confirmed_email_users [of "get_email_from_token env" token db]
  have "verified_users_kept db (snd (confirmed_email (get_email_from_token env) token db))"
  proof (elim disjE exE)
    assume "users (snd (confirmed_email (get_email_from_token env) token db)) = users db"
    then show ?thesis by (rule kept_same)
  next
    fix i assume "users (snd (confirmed_email (get_email_from_token env) token db)) =
      map (\<lambda>v. if u_id v = i then v\<lparr>u_is_verified := True\<rparr> else v) (users db)"
    then show ?thesis by (rule kept_map) simp
  qed
  with ConfirmedEmail show ?thesis by simp
next
  case (UpdateAvatarUrl email url)
  from update_avatar_url_users [of email url db]
  have "verified_users_kept db (snd (UserRepository_update_avatar_url email url db))"
  proof (elim disjE exE)
    assume "users (snd (UserRepository_update_avatar_url email url db)) = users db"
    then show ?thesis by (rule kept_same)
  next
    fix i assume "users (snd (UserRepository_update_avatar_url email url db)) =
      map (\<lambda>v. if u_id v = i then v\<lparr>u_avatar_url := Some url\<rparr> else v) (users db)"
    then show ?thesis by (rule kept_map) simp
  qed
  with UpdateAvatarUrl show ?thesis by simp
next
  case (CreateContact raw user)
  have "users (snd (create_contact_endpoint (decimal_table env) (email_valid env) today raw
      user now db)) = users db"
    by (simp add: create_contact_endpoint_def create_contact_users split: sum.splits)
  then have "verified_users_kept db
      (snd (create_contact_endpoint (decimal_table env) (email_valid env) today raw user now
         db))"
    by (rule kept_same)
  with CreateContact show ?thesis by simp
next
  case (UpdateContact contact_id raw user)
  have "users (snd (update_contact_endpoint (decimal_table env) (email_valid env) today
      contact_id raw user now db)) = users db"
    by (simp add: update_contact_endpoint_def update_contact_users split: sum.splits)
  then have "verified_users_kept db
      (snd (update_contact_endpoint (decimal_table env) (email_valid env) today contact_id raw
         user now db))"
    by (rule kept_same)
  with UpdateContact show ?thesis by simp
next
  case (RemoveContact contact_id user)
  have "verified_users_kept db (snd (ContactService_remove_contact contact_id user db))"
    using remove_contact_users by (rule kept_same)
  with RemoveContact show ?thesis by simp
qed (simp_all add: kept_same)

lemma handle_all_kept: "verified_users_kept db (handle_all env reqs db)"
proof (induction reqs arbitrary: db)
  case Nil
  show ?case by (simp add: kept_same)
next
  case (Cons r reqs)
  obtain now today req where r: "r = (now, today, req)" by (cases r) auto
  show ?case
    using kept_trans [OF handle_kept Cons.IH] by (simp add: r)
qed
text \<open>
  C6.  Under the unique constraints of the store, for a token that decodes to an email:
  with no user of that email \<open>confirmed_email\<close> fails with status 400 and changes nothing;
  for a user who is already verified it reports that and changes nothing; otherwise it
  sets \<open>is_verified\<close> of that user and of no other row, and a second call with the same
  token then reports that the email is already verified.  A second call never changes
  the store again, and after any sequence of requests to the operations of this model a
  user who was verified is still verified.
\<close>

theorem confirmed_email_one_way:
  assumes "unique_constraints db" and "g token = Inr email"
  shows "(email \<notin> u_email ` set (users db) \<longrightarrow>
            confirmed_email g token db = (Inl (HTTPException 400 (py ''Verification error'')), db)) \<and>
         (\<forall>u \<in> set (users db). u_email u = email \<and> u_is_verified u \<longrightarrow>
            confirmed_email g token db = (Inr (200, py ''Your email is already verified''), db)) \<and>
         (\<forall>u \<in> set (users db). u_email u = email \<and> \<not> u_is_verified u \<longrightarrow>
            confirmed_email g token db =
              (Inr (200, py ''Email verified successfully''),
               db\<lparr>users := map (\<lambda>v. if v = u then u\<lparr>u_is_verified := True\<rparr> else v)
                               (users db)\<rparr>) \<and>
            fst (confirmed_email g token (snd (confirmed_email g token db))) =
              Inr (200, py ''Your email is already verified'')) \<and>
         snd (confirmed_email g token (snd (confirmed_email g token db))) =
           snd (confirmed_email g token db) \<and>
         (\<forall>u \<in> set (users db). u_is_verified u \<longrightarrow>
            (\<exists>v \<in> set (users (handle_all env reqs db)). u_id v = u_id u \<and>
               u_username v = u_username u \<and> u_email v = u_email u \<and> u_is_verified v))"
proof (intro conjI impI ballI)
  assume "email \<notin> u_email ` set (users db)"
  then have "UserService_get_user_by_email email db = Inr None"
    by (rule get_user_by_email_absent)
  then show "confirmed_email g token db = (Inl (HTTPException 400 (py ''Verification error'')), db)"
    using assms(2) by (simp add: confirmed_email_def)
next
  fix u assume u: "u \<in> set (users db)" and h: "u_email u = email \<and> u_is_verified u"
  have "UserService_get_user_by_email email db = Inr (Some u)"
    using get_user_by_email_present [OF assms(1) u] h by simp
  then show "confirmed_email g token db = (Inr (200, py ''Your email is already verified''), db)"
    using assms(2) h by (simp add: confirmed_email_def)
next
  fix u assume u: "u \<in> set (users db)" and h: "u_email u = email \<and> \<not> u_is_verified u"
  let ?g = "\<lambda>v. if u_id v = u_id u then v\<lparr>u_is_verified := True\<rparr> else v"
  let ?db = "db\<lparr>users := map ?g (users db)\<rparr>"
  have one: "filter (\<lambda>v. u_email v = email) (users db) = [u]"
    using filter_key_unique [of u_email "users db" u] assms(1) u h
    by (simp add: unique_constraints_def)
  then have look: "UserRepository_get_user_by_email email db = Inr (Some u)"
    by (simp add: UserRepository_get_user_by_email_def)
  have first: "confirmed_email g token db = (Inr (200, py ''Email verified successfully''), ?db)"
    using assms(2) look h
    by (simp add: confirmed_email_def UserService_get_user_by_email_def
        UserService_confirm_email_def UserRepository_confirmed_email_def)
  have "distinct (map u_id (users db))"
    using assms(1) by (simp add: unique_constraints_def)
  then have rows: "map ?g (users db) =
      map (\<lambda>v. if v = u then u\<lparr>u_is_verified := True\<rparr> else v) (users db)"
    using u by (rule map_update_by_id)
  have "filter (\<lambda>v. u_email v = email) (users ?db) = map ?g [u]"
    using filter_email_map [of ?g email "users db"] one by simp
  then have "UserRepository_get_user_by_email email ?db = Inr (Some (u\<lparr>u_is_verified := True\<rparr>))"
    by (simp add: UserRepository_get_user_by_email_def)
  then have second: "fst (confirmed_email g token ?db) = Inr (200, py ''Your email is already verified'')"
    using assms(2) by (simp add: confirmed_email_def UserService_get_user_by_email_def)
  show "confirmed_email g token db =
              (Inr (200, py ''Email verified successfully''),
               db\<lparr>users := map (\<lambda>v. if v = u then u\<lparr>u_is_verified := True\<rparr> else v)
                               (users db)\<rparr>)"
    using first rows by simp
  show "fst (confirmed_email g token (snd (confirmed_email g token db))) =
              Inr (200, py ''Your email is already verified'')"
    using first second by simp
next
  show "snd (confirmed_email g token (snd (confirmed_email g token db))) =
           snd (confirmed_email g token db)"
    by (rule confirmed_email_repeat)
next
  fix u assume "u \<in> set (users db)" and "u_is_verified u"
  then show "\<exists>v \<in> set (users (handle_all env reqs db)). u_id v = u_id u \<and>
               u_username v = u_username u \<and> u_email v = u_email u \<and> u_is_verified v"
    using handle_all_kept [of db env reqs] by (simp add: verified_users_kept_def)
qed

text \<open>
  In the example store alice is not verified: her token verifies her, the token of an
  unknown address gets status 400, and after a later registration, avatar update and
  contact removal bob is still verified.
\<close>

theorem confirmed_email_one_way_witness:
  "unique_constraints db_two \<and>
   example_email_from_token (py ''alice@x.com'') = Inr (py ''alice@x.com'') \<and>
   alice \<in> set (users db_two) \<and> \<not> u_is_verified alice \<and>
   confirmed_email example_email_from_token (py ''alice@x.com'') db_two =
     (Inr (200, py ''Email verified successfully''),
      db_two\<lparr>users := [alice\<lparr>u_is_verified := True\<rparr>, bob]\<rparr>) \<and>
   bob \<in> set (users db_two) \<and> u_is_verified bob \<and>
   (\<exists>v \<in> set (users (handle_all example_env
        [(7, \<lparr>year = 2024, month = 12, day = 29\<rparr>, UpdateAvatarUrl (py ''bob@x.com'') (py ''http://img/1.png'')),
         (8, \<lparr>year = 2024, month = 12, day = 29\<rparr>, RemoveContact 2 bob)] db_two)).
      u_id v = 2 \<and> u_username v = py ''bob'' \<and> u_email v = py ''bob@x.com'' \<and> u_is_verified v)"
proof -
  have tok: "example_email_from_token (py ''alice@x.com'') = Inr (py ''alice@x.com'')"
    by (simp add: example_email_from_token_def)
  note t = confirmed_email_one_way [of db_two example_email_from_token "py ''alice@x.com''"
      "py ''alice@x.com''" example_env
      "[(7, \<lparr>year = 2024, month = 12, day = 29\<rparr>, UpdateAvatarUrl (py ''bob@x.com'') (py ''http://img/1.png'')),
        (8, \<lparr>year = 2024, month = 12, day = 29\<rparr>, RemoveContact 2 bob)]",
      OF unique_constraints_db_two tok]
  have ma: "alice \<in> set (users db_two)" and mb: "bob \<in> set (users db_two)"
    by (simp_all add: db_two_def)
  have va: "\<not> u_is_verified alice" and vb: "u_is_verified bob"
    and ea: "u_email alice = py ''alice@x.com''"
    by (simp_all add: alice_def bob_def)
  have ne: "bob \<noteq> alice"
    by (simp add: alice_def bob_def)
  have "confirmed_email example_email_from_token (py ''alice@x.com'') db_two =
     (Inr (200, py ''Email verified successfully''),
      db_two\<lparr>users := map (\<lambda>v. if v = alice then alice\<lparr>u_is_verified := True\<rparr> else v)
         (users db_two)\<rparr>)"
    using t ma va ea by blast
  moreover have "map (\<lambda>v. if v = alice then alice\<lparr>u_is_verified := True\<rparr> else v)
         (users db_two) = [alice\<lparr>u_is_verified := True\<rparr>, bob]"
    using ne by (simp add: db_two_def)
  ultimately have r1: "confirmed_email example_email_from_token (py ''alice@x.com'') db_two =
     (Inr (200, py ''Email verified successfully''),
      db_two\<lparr>users := [alice\<lparr>u_is_verified := True\<rparr>, bob]\<rparr>)"
    by simp
  have "\<exists>v \<in> set (users (handle_all example_env
        [(7, \<lparr>year = 2024, month = 12, day = 29\<rparr>, UpdateAvatarUrl (py ''bob@x.com'') (py ''http://img/1.png'')),
         (8, \<lparr>year = 2024, month = 12, day = 29\<rparr>, RemoveContact 2 bob)] db_two)).
      u_id v = u_id bob \<and> u_username v = u_username bob \<and> u_email v = u_email bob \<and>
      u_is_verified v"
    using t mb vb by blast
  then have r2: "\<exists>v \<in> set (users (handle_all example_env
        [(7, \<lparr>year = 2024, month = 12, day = 29\<rparr>, UpdateAvatarUrl (py ''bob@x.com'') (py ''http://img/1.png'')),
         (8, \<lparr>year = 2024, month = 12, day = 29\<rparr>, RemoveContact 2 bob)] db_two)).
      u_id v = 2 \<and> u_username v = py ''bob'' \<and> u_email v = py ''bob@x.com'' \<and> u_is_verified v"
    by (simp add: bob_def)
  from unique_constraints_db_two tok ma va r1 mb vb r2 show ?thesis by simp
qed

section \<open>Contacts\<close>

text \<open>
  C4.  When some contact of the store, whoever owns it, has the email or the phone of
  the request, \<open>create_contact\<close> fails with status 400 (the duplicate error) and the store
  is unchanged; otherwise the new contact, with the fields of the request and linked to
  the requesting user, is appended to the contacts and returned.
\<close>

theorem create_contact_duplicate:
  "((\<exists>c \<in> set (contacts db). c_email c = cm_email body \<or> c_phone c = cm_phone body) \<longrightarrow>
      (\<exists>detail. ContactService_create_contact body user now db =
         (Inl (HTTPException 400 detail), db))) \<and>
   (\<not> (\<exists>c \<in> set (contacts db). c_email c = cm_email body \<or> c_phone c = cm_phone body) \<longrightarrow>
      (\<exists>c. ContactService_create_contact body user now db =
             (Inr c, db\<lparr>contacts := contacts db @ [c],
                        contacts_id_seq := Suc (contacts_id_seq db)\<rparr>) \<and>
           c_user_id c = u_id user \<and> c_name c = cm_name body \<and>
           c_surname c = cm_surname body \<and> c_email c = cm_email body \<and>
           c_phone c = cm_phone body \<and> c_birthday c = cm_birthday body \<and>
           c_info c = cm_info body))"
proof (cases "\<exists>c \<in> set (contacts db). c_email c = cm_email body \<or> c_phone c = cm_phone body")
  case True
  then have "ContactRepository_is_contact_exists (cm_email body) (cm_phone body) user db"
    by (simp add: ContactRepository_is_contact_exists_def list_ex_iff)
  then have "\<exists>detail. ContactService_create_contact body user now db =
         (Inl (HTTPException 400 detail), db)"
    by (simp add: ContactService_create_contact_def)
  with True show ?thesis by simp
next
  case False
  then have no: "\<not> list_ex (\<lambda>c. c_email c = cm_email body \<or> c_phone c = cm_phone body)
      (contacts db)"
    by (simp add: list_ex_iff)
  let ?c = "\<lparr>c_id = contacts_id_seq db, c_name = cm_name body,
             c_surname = cm_surname body, c_email = cm_email body,
             c_phone = cm_phone body, c_birthday = cm_birthday body,
             c_created_at = now, c_updated_at = None, c_info = cm_info body,
             c_user_id = u_id user\<rparr>"
  have "ContactService_create_contact body user now db =
      (Inr ?c, db\<lparr>contacts := contacts db @ [?c], contacts_id_seq := Suc (contacts_id_seq db)\<rparr>)"
    using no by (simp add: ContactService_create_contact_def
        ContactRepository_is_contact_exists_def ContactRepository_create_contact_def Let_def)
  then have "\<exists>c. ContactService_create_contact body user now db =
             (Inr c, db\<lparr>contacts := contacts db @ [c],
                        contacts_id_seq := Suc (contacts_id_seq db)\<rparr>) \<and>
           c_user_id c = u_id user \<and> c_name c = cm_name body \<and>
           c_surname c = cm_surname body \<and> c_email c = cm_email body \<and>
           c_phone c = cm_phone body \<and> c_birthday c = cm_birthday body \<and>
           c_info c = cm_info body"
    by (intro exI [of _ ?c]) simp
  with False show ?thesis by simp
qed

text \<open>
  In the example store the contact with the phone \<open>+15551234567\<close> belongs to alice (id 1):
  bob cannot create a contact with that phone, and can create one with a new email and
  phone.
\<close>

theorem create_contact_duplicate_witness:
  "lee \<in> set (contacts db_two) \<and> c_phone lee = cm_phone may_body \<and> c_user_id lee \<noteq> u_id bob \<and>
   (\<exists>detail. ContactService_create_contact may_body bob 9 db_two =
      (Inl (HTTPException 400 detail), db_two)) \<and>
   \<not> (\<exists>c \<in> set (contacts db_two).
        c_email c = cm_email (may_body\<lparr>cm_phone := py ''+15550000000''\<rparr>) \<or>
        c_phone c = cm_phone (may_body\<lparr>cm_phone := py ''+15550000000''\<rparr>)) \<and>
   (\<exists>c. fst (ContactService_create_contact (may_body\<lparr>cm_phone := py ''+15550000000''\<rparr>) bob 9 db_two)
          = Inr c \<and> c_user_id c = 2)"
proof -
  have m: "lee \<in> set (contacts db_two)" and p: "c_phone lee = cm_phone may_body"
    and o: "c_user_id lee \<noteq> u_id bob"
    by (simp_all add: db_two_def lee_def may_body_def bob_def)
  have r1: "\<exists>detail. ContactService_create_contact may_body bob 9 db_two =
      (Inl (HTTPException 400 detail), db_two)"
    using create_contact_duplicate [of db_two may_body bob 9] m p by blast
  have n: "\<not> (\<exists>c \<in> set (contacts db_two).
        c_email c = cm_email (may_body\<lparr>cm_phone := py ''+15550000000''\<rparr>) \<or>
        c_phone c = cm_phone (may_body\<lparr>cm_phone := py ''+15550000000''\<rparr>))"
    by (simp add: db_two_def lee_def kim_def may_body_def)
  have "\<exists>c. fst (ContactService_create_contact (may_body\<lparr>cm_phone := py ''+15550000000''\<rparr>) bob 9 db_two)
          = Inr c \<and> c_user_id c = u_id bob"
    using create_contact_duplicate [of db_two "may_body\<lparr>cm_phone := py ''+15550000000''\<rparr>" bob 9] n
    by auto
  then have r2: "\<exists>c. fst (ContactService_create_contact (may_body\<lparr>cm_phone := py ''+15550000000''\<rparr>) bob 9 db_two)
          = Inr c \<and> c_user_id c = 2"
    by (simp add: bob_def)
  from m p o r1 n r2 show ?thesis by simp
qed

lemma find_owned:
  "find P xs = Some x \<Longrightarrow> P x \<and> x \<in> set xs"
  by (induction xs) (auto split: if_splits)

lemma get_contact_by_id_None:
  "ContactRepository_get_contact_by_id contact_id user db = None \<longleftrightarrow>
   \<not> (\<exists>c \<in> set (contacts db). c_id c = contact_id \<and> c_user_id c = u_id user)"
  by (auto simp: ContactRepository_get_contact_by_id_def find_None_iff)

lemma get_contact_by_id_Some:
  "ContactRepository_get_contact_by_id contact_id user db = Some c \<Longrightarrow>
   c \<in> set (contacts db) \<and> c_id c = contact_id \<and> c_user_id c = u_id user"
  using find_owned [of "\<lambda>c. c_id c = contact_id \<and> c_user_id c = u_id user" "contacts db" c]
  by (simp add: ContactRepository_get_contact_by_id_def)

lemma get_contact_404:
  "ContactService_get_contact contact_id user db = Inl (HTTPException 404 (py ''Contact not found'')) \<longleftrightarrow>
   \<not> (\<exists>c \<in> set (contacts db). c_id c = contact_id \<and> c_user_id c = u_id user)"
  using get_contact_by_id_None [of contact_id user db]
  by (cases "ContactRepository_get_contact_by_id contact_id user db")
    (simp_all add: ContactService_get_contact_def)

lemma update_contact_404:
  "fst (ContactService_update_contact contact_id body user now db) =
     Inl (HTTPException 404 (py ''Contact not found'')) \<longleftrightarrow>
   \<not> (\<exists>c \<in> set (contacts db). c_id c = contact_id \<and> c_user_id c = u_id user)"
  using get_contact_by_id_None [of contact_id user db]
  by (cases "ContactRepository_get_contact_by_id contact_id user db")
    (simp_all add: ContactService_update_contact_def ContactRepository_update_contact_def Let_def)

lemma remove_contact_404:
  "fst (ContactService_remove_contact contact_id user db) =
     Inl (HTTPException 404 (py ''Contact not found'')) \<longleftrightarrow>
   \<not> (\<exists>c \<in> set (contacts db). c_id c = contact_id \<and> c_user_id c = u_id user)"
  using get_contact_by_id_None [of contact_id user db]
  by (cases "ContactRepository_get_contact_by_id contact_id user db")
    (simp_all add: ContactService_remove_contact_def ContactRepository_remove_contact_def)

lemma not_owned_update_unchanged:
  assumes "\<not> (\<exists>c \<in> set (contacts db). c_id c = contact_id \<and> c_user_id c = u_id user)"
  shows "snd (ContactService_update_contact contact_id body user now db) = db"
proof -
  have "ContactRepository_get_contact_by_id contact_id user db = None"
    using assms by (simp add: get_contact_by_id_None)
  then show ?thesis
    by (simp add: ContactService_update_contact_def ContactRepository_update_contact_def)
qed

lemma not_owned_remove_unchanged:
  assumes "\<not> (\<exists>c \<in> set (contacts db). c_id c = contact_id \<and> c_user_id c = u_id user)"
  shows "snd (ContactService_remove_contact contact_id user db) = db"
proof -
  have "ContactRepository_get_contact_by_id contact_id user db = None"
    using assms by (simp add: get_contact_by_id_None)
  then show ?thesis
    by (simp add: ContactService_remove_contact_def ContactRepository_remove_contact_def)
qed

lemma update_contact_success:
  assumes "ContactService_update_contact contact_id body user now db = (Inr c', db')"
  shows "c_name c' = cm_name body \<and> c_surname c' = cm_surname body \<and>
         c_email c' = cm_email body \<and> c_phone c' = cm_phone body \<and>
         c_birthday c' = cm_birthday body \<and> c_info c' = cm_info body \<and>
         c_updated_at c' = Some now \<and> c_id c' = contact_id \<and> c_user_id c' = u_id user \<and>
         contacts db' = map (\<lambda>c. if c_id c = contact_id then c' else c) (contacts db) \<and>
         c' \<in> set (contacts db')"
proof (cases "ContactRepository_get_contact_by_id contact_id user db")
  case None
  with assms show ?thesis
    by (simp add: ContactService_update_contact_def ContactRepository_update_contact_def)
next
  case (Some c)
  then have c: "c \<in> set (contacts db)" "c_id c = contact_id" "c_user_id c = u_id user"
    using get_contact_by_id_Some by blast+
  let ?u = "c\<lparr>c_name := cm_name body, c_surname := cm_surname body,
               c_email := cm_email body, c_phone := cm_phone body,
               c_birthday := cm_birthday body, c_info := cm_info body,
               c_updated_at := Some now\<rparr>"
  from assms Some have eq: "c' = ?u"
    and rows: "contacts db' = map (\<lambda>x. if c_id x = contact_id then ?u else x) (contacts db)"
    by (auto simp: ContactService_update_contact_def ContactRepository_update_contact_def Let_def
        split: if_splits)
  have "?u \<in> set (map (\<lambda>x. if c_id x = contact_id then ?u else x) (contacts db))"
    using c(1,2) by (force simp: image_iff)
  with eq rows c show ?thesis by simp
qed

lemma remove_contact_success:
  assumes "ContactService_remove_contact contact_id user db = (Inr c, db')"
  shows "c \<in> set (contacts db) \<and> c_id c = contact_id \<and> c_user_id c = u_id user \<and>
         db' = db\<lparr>contacts := filter (\<lambda>x. c_id x \<noteq> contact_id) (contacts db)\<rparr> \<and>
         (\<forall>x \<in> set (contacts db'). c_id x \<noteq> contact_id)"
proof (cases "ContactRepository_get_contact_by_id contact_id user db")
  case None
  with assms show ?thesis
    by (simp add: ContactService_remove_contact_def ContactRepository_remove_contact_def)
next
  case (Some d)
  with assms have "d = c"
    and "db' = db\<lparr>contacts := filter (\<lambda>x. c_id x \<noteq> contact_id) (contacts db)\<rparr>"
    by (auto simp: ContactService_remove_contact_def ContactRepository_remove_contact_def)
  with Some get_contact_by_id_Some [of contact_id user db c] show ?thesis by simp
qed

text \<open>
  C5.  Each of \<open>get_contact\<close>, \<open>update_contact\<close> and \<open>remove_contact\<close> fails with status 404
  exactly when the store has no contact with that id owned by the requesting user, and
  then leaves the store as it is; under the unique constraints this is always so when
  the contact with that id belongs to another user.  A successful update returns the
  contact with name, surname, email, phone, birthday and info of the request and
  \<open>updated_at\<close> set to the time of the request, stored in place of the old row; a
  successful removal returns the owner's contact and leaves no row with that id.
\<close>

theorem contact_not_found_iff:
  "(ContactService_get_contact contact_id user db = Inl (HTTPException 404 (py ''Contact not found'')) \<longleftrightarrow>
      \<not> (\<exists>c \<in> set (contacts db). c_id c = contact_id \<and> c_user_id c = u_id user)) \<and>
   (fst (ContactService_update_contact contact_id body user now db) =
      Inl (HTTPException 404 (py ''Contact not found'')) \<longleftrightarrow>
      \<not> (\<exists>c \<in> set (contacts db). c_id c = contact_id \<and> c_user_id c = u_id user)) \<and>
   (fst (ContactService_remove_contact contact_id user db) =
      Inl (HTTPException 404 (py ''Contact not found'')) \<longleftrightarrow>
      \<not> (\<exists>c \<in> set (contacts db). c_id c = contact_id \<and> c_user_id c = u_id user)) \<and>
   (\<not> (\<exists>c \<in> set (contacts db). c_id c = contact_id \<and> c_user_id c = u_id user) \<longrightarrow>
      snd (ContactService_update_contact contact_id body user now db) = db \<and>
      snd (ContactService_remove_contact contact_id user db) = db) \<and>
   (unique_constraints db \<longrightarrow>
      (\<forall>c \<in> set (contacts db). c_id c = contact_id \<and> c_user_id c \<noteq> u_id user \<longrightarrow>
         ContactService_get_contact contact_id user db =
           Inl (HTTPException 404 (py ''Contact not found'')) \<and>
         ContactService_update_contact contact_id body user now db =
           (Inl (HTTPException 404 (py ''Contact not found'')), db) \<and>
         ContactService_remove_contact contact_id user db =
           (Inl (HTTPException 404 (py ''Contact not found'')), db))) \<and>
   (\<forall>c' db'. ContactService_update_contact contact_id body user now db = (Inr c', db') \<longrightarrow>
      c_name c' = cm_name body \<and> c_surname c' = cm_surname body \<and>
      c_email c' = cm_email body \<and> c_phone c' = cm_phone body \<and>
      c_birthday c' = cm_birthday body \<and> c_info c' = cm_info body \<and>
      c_updated_at c' = Some now \<and> c_id c' = contact_id \<and> c_user_id c' = u_id user \<and>
      contacts db' = map (\<lambda>c. if c_id c = contact_id then c' else c) (contacts db) \<and>
      c' \<in> set (contacts db')) \<and>
   (\<forall>c db'. ContactService_remove_contact contact_id user db = (Inr c, db') \<longrightarrow>
      c \<in> set (contacts db) \<and> c_id c = contact_id \<and> c_user_id c = u_id user \<and>
      db' = db\<lparr>contacts := filter (\<lambda>x. c_id x \<noteq> contact_id) (contacts db)\<rparr> \<and>
      (\<forall>x \<in> set (contacts db'). c_id x \<noteq> contact_id))"
proof -
  have foreign: "\<not> (\<exists>d \<in> set (contacts db). c_id d = contact_id \<and> c_user_id d = u_id user)"
    if "unique_constraints db" "c \<in> set (contacts db)" "c_id c = contact_id"
      "c_user_id c \<noteq> u_id user" for c
  proof
    assume "\<exists>d \<in> set (contacts db). c_id d = contact_id \<and> c_user_id d = u_id user"
    then obtain d where d: "d \<in> set (contacts db)" "c_id d = contact_id" "c_user_id d = u_id user"
      by blast
    have "distinct (map c_id (contacts db))"
      using that(1) by (simp add: unique_constraints_def)
    then have "d = c"
      using d(1) that(2) d(2) that(3) distinct_map_eq [of c_id "contacts db" d c] by simp
    with d(3) that(4) show False by simp
  qed
  have five: "unique_constraints db \<longrightarrow>
      (\<forall>c \<in> set (contacts db). c_id c = contact_id \<and> c_user_id c \<noteq> u_id user \<longrightarrow>
         ContactService_get_contact contact_id user db =
           Inl (HTTPException 404 (py ''Contact not found'')) \<and>
         ContactService_update_contact contact_id body user now db =
           (Inl (HTTPException 404 (py ''Contact not found'')), db) \<and>
         ContactService_remove_contact contact_id user db =
           (Inl (HTTPException 404 (py ''Contact not found'')), db))"
  proof (intro impI ballI)
    fix c assume "unique_constraints db" "c \<in> set (contacts db)"
      "c_id c = contact_id \<and> c_user_id c \<noteq> u_id user"
    then have n: "\<not> (\<exists>d \<in> set (contacts db). c_id d = contact_id \<and> c_user_id d = u_id user)"
      using foreign by blast
    show "ContactService_get_contact contact_id user db =
           Inl (HTTPException 404 (py ''Contact not found'')) \<and>
         ContactService_update_contact contact_id body user now db =
           (Inl (HTTPException 404 (py ''Contact not found'')), db) \<and>
         ContactService_remove_contact contact_id user db =
           (Inl (HTTPException 404 (py ''Contact not found'')), db)"
      using n get_contact_404 [of contact_id user db]
        update_contact_404 [of contact_id body user now db]
        remove_contact_404 [of contact_id user db]
        not_owned_update_unchanged [OF n, of body now] not_owned_remove_unchanged [OF n]
      by (simp add: prod_eq_iff)
  qed
  show ?thesis
    using get_contact_404 [of contact_id user db]
      update_contact_404 [of contact_id body user now db]
      remove_contact_404 [of contact_id user db]
      not_owned_update_unchanged [of db contact_id user body now]
      not_owned_remove_unchanged [of db contact_id user]
      five update_contact_success [of contact_id body user now db]
      remove_contact_success [of contact_id user db]
    by blast
qed
text \<open>
  In the example store contact 1 belongs to alice: bob gets 404 for it, alice can read,
  update and remove it.
\<close>

theorem contact_not_found_iff_witness:
  "unique_constraints db_two \<and> lee \<in> set (contacts db_two) \<and> c_id lee = 1 \<and>
   c_user_id lee \<noteq> u_id bob \<and> c_user_id lee = u_id alice \<and>
   ContactService_get_contact 1 bob db_two = Inl (HTTPException 404 (py ''Contact not found'')) \<and>
   ContactService_update_contact 1 may_body bob 9 db_two =
     (Inl (HTTPException 404 (py ''Contact not found'')), db_two) \<and>
   ContactService_remove_contact 1 bob db_two =
     (Inl (HTTPException 404 (py ''Contact not found'')), db_two) \<and>
   ContactService_get_contact 1 alice db_two \<noteq> Inl (HTTPException 404 (py ''Contact not found'')) \<and>
   (\<exists>c' db'. ContactService_update_contact 1 may_body alice 9 db_two = (Inr c', db') \<and>
      c_email c' = py ''may@x.com'' \<and> c_updated_at c' = Some 9 \<and> c' \<in> set (contacts db')) \<and>
   (\<exists>c db'. ContactService_remove_contact 1 alice db_two = (Inr c, db') \<and>
      contacts db' = [kim])"
proof -
  have m: "lee \<in> set (contacts db_two)" and i: "c_id lee = 1"
    and o: "c_user_id lee \<noteq> u_id bob" and oa: "c_user_id lee = u_id alice"
    by (simp_all add: db_two_def lee_def bob_def alice_def)
  note t = contact_not_found_iff [of 1 _ db_two may_body 9]
  have r1: "ContactService_get_contact 1 bob db_two = Inl (HTTPException 404 (py ''Contact not found'')) \<and>
   ContactService_update_contact 1 may_body bob 9 db_two =
     (Inl (HTTPException 404 (py ''Contact not found'')), db_two) \<and>
   ContactService_remove_contact 1 bob db_two =
     (Inl (HTTPException 404 (py ''Contact not found'')), db_two)"
    using t [of bob] unique_constraints_db_two m i o by blast
  have r2: "ContactService_get_contact 1 alice db_two \<noteq>
      Inl (HTTPException 404 (py ''Contact not found''))"
    using t [of alice] m i oa by blast
  have "\<exists>c' db'. ContactService_update_contact 1 may_body alice 9 db_two = (Inr c', db')"
    by (simp add: ContactService_update_contact_def ContactRepository_update_contact_def
        ContactRepository_get_contact_by_id_def db_two_def lee_def kim_def alice_def may_body_def
        Let_def)
  then obtain c' db' where
    u: "ContactService_update_contact 1 may_body alice 9 db_two = (Inr c', db')" by blast
  then have "c_email c' = cm_email may_body \<and> c_updated_at c' = Some 9 \<and> c' \<in> set (contacts db')"
    using t [of alice] by blast
  with u have r3: "\<exists>c' db'. ContactService_update_contact 1 may_body alice 9 db_two = (Inr c', db') \<and>
      c_email c' = py ''may@x.com'' \<and> c_updated_at c' = Some 9 \<and> c' \<in> set (contacts db')"
    by (auto simp: may_body_def)
  have "\<exists>c db'. ContactService_remove_contact 1 alice db_two = (Inr c, db')"
    by (simp add: ContactService_remove_contact_def ContactRepository_remove_contact_def
        ContactRepository_get_contact_by_id_def db_two_def lee_def alice_def)
  then obtain c db'' where
    d: "ContactService_remove_contact 1 alice db_two = (Inr c, db'')" by blast
  then have "db'' = db_two\<lparr>contacts := filter (\<lambda>x. c_id x \<noteq> 1) (contacts db_two)\<rparr>"
    using t [of alice] by blast
  then have "contacts db'' = [kim]"
    by (simp add: db_two_def lee_def kim_def)
  with d have r4: "\<exists>c db'. ContactService_remove_contact 1 alice db_two = (Inr c, db') \<and>
      contacts db' = [kim]"
    by blast
  from unique_constraints_db_two m i o oa r1 r2 r3 r4 show ?thesis by simp
qed

section \<open>Upcoming birthdays\<close>

lemma set_birthday_window:
  "set (birthday_window today days) = {month_day (add_days today k) | k. k \<le> days}"
proof (induction days arbitrary: today)
  case 0
  show ?case by auto
next
  case (Suc days)
  show ?case
  proof (intro set_eqI iffI)
    fix p assume "p \<in> set (birthday_window today (Suc days))"
    then have "p = month_day today \<or> p \<in> set (birthday_window (next_day today) days)"
      by simp
    then show "p \<in> {month_day (add_days today k) | k. k \<le> Suc days}"
    proof
      assume "p = month_day today"
      then have "p = month_day (add_days today 0)" by simp
      then show ?thesis by blast
    next
      assume "p \<in> set (birthday_window (next_day today) days)"
      then obtain k where "k \<le> days" and "p = month_day (add_days (next_day today) k)"
        using Suc.IH [of "next_day today"] by auto
      then have "Suc k \<le> Suc days" and "p = month_day (add_days today (Suc k))" by simp_all
      then show ?thesis by blast
    qed
  next
    fix p assume "p \<in> {month_day (add_days today k) | k. k \<le> Suc days}"
    then obtain k where k: "k \<le> Suc days" and p: "p = month_day (add_days today k)" by blast
    show "p \<in> set (birthday_window today (Suc days))"
    proof (cases k)
      case 0
      with p show ?thesis by simp
    next
      case (Suc j)
      with k p have "j \<le> days" and "p = month_day (add_days (next_day today) j)" by simp_all
      then have "p \<in> set (birthday_window (next_day today) days)"
        using Suc.IH [of "next_day today"] by blast
      then show ?thesis by simp
    qed
  qed
qed

lemma window_2024_12_29:
  "birthday_window \<lparr>year = 2024, month = 12, day = 29\<rparr> 7 =
     [(12, 29), (12, 30), (12, 31), (1, 1), (1, 2), (1, 3), (1, 4), (1, 5)]"
  by code_simp

text \<open>
  C7.  \<open>get_upcoming_birthdays\<close> returns, in the order of the store, exactly the contacts
  of the owner whose birthday has the month and day of one of the dates
  \<open>today, today + 1, ..., today + days\<close>, where the dates run across the ends of months
  and years.  On 2024-12-29 with \<open>days = 7\<close> an owner's contact born on a January 3 is
  returned and one born on a January 6 is not, whatever the year of birth.
\<close>

theorem upcoming_birthdays_window:
  "ContactService_get_upcoming_birthdays days user today db =
     filter (\<lambda>c. c_user_id c = u_id user \<and>
                 (\<exists>k \<le> days. month_day (c_birthday c) = month_day (add_days today k)))
       (contacts db) \<and>
   (\<forall>c \<in> set (contacts db). c_user_id c = u_id user \<longrightarrow>
      (month (c_birthday c) = 1 \<and> day (c_birthday c) = 3 \<longrightarrow>
         c \<in> set (ContactService_get_upcoming_birthdays 7 user
                    \<lparr>year = 2024, month = 12, day = 29\<rparr> db)) \<and>
      (month (c_birthday c) = 1 \<and> day (c_birthday c) = 6 \<longrightarrow>
         c \<notin> set (ContactService_get_upcoming_birthdays 7 user
                    \<lparr>year = 2024, month = 12, day = 29\<rparr> db)))"
proof
  have w: "month_day (c_birthday c) \<in> set (birthday_window today days) \<longleftrightarrow>
      (\<exists>k \<le> days. month_day (c_birthday c) = month_day (add_days today k))"
    for c :: Contact
    by (auto simp: set_birthday_window)
  show "ContactService_get_upcoming_birthdays days user today db =
     filter (\<lambda>c. c_user_id c = u_id user \<and>
                 (\<exists>k \<le> days. month_day (c_birthday c) = month_day (add_days today k)))
       (contacts db)"
    unfolding ContactService_get_upcoming_birthdays_def
      ContactRepository_get_upcoming_birthdays_def
    by (simp only: w)
next
  show "\<forall>c \<in> set (contacts db). c_user_id c = u_id user \<longrightarrow>
      (month (c_birthday c) = 1 \<and> day (c_birthday c) = 3 \<longrightarrow>
         c \<in> set (ContactService_get_upcoming_birthdays 7 user
                    \<lparr>year = 2024, month = 12, day = 29\<rparr> db)) \<and>
      (month (c_birthday c) = 1 \<and> day (c_birthday c) = 6 \<longrightarrow>
         c \<notin> set (ContactService_get_upcoming_birthdays 7 user
                    \<lparr>year = 2024, month = 12, day = 29\<rparr> db))"
    by (simp add: ContactService_get_upcoming_birthdays_def
        ContactRepository_get_upcoming_birthdays_def window_2024_12_29 month_day_def)
qed

text \<open>
  In the example store lee (born 1990-01-03) belongs to alice and kim (born 1985-01-06)
  to bob; the window of 2024-12-29 ends on 2025-01-05.
\<close>

theorem upcoming_birthdays_window_witness:
  "add_days \<lparr>year = 2024, month = 12, day = 29\<rparr> 7 = \<lparr>year = 2025, month = 1, day = 5\<rparr> \<and>
   lee \<in> set (contacts db_two) \<and> c_user_id lee = u_id alice \<and>
   c_birthday lee = \<lparr>year = 1990, month = 1, day = 3\<rparr> \<and>
   lee \<in> set (ContactService_get_upcoming_birthdays 7 alice
                \<lparr>year = 2024, month = 12, day = 29\<rparr> db_two) \<and>
   kim \<in> set (contacts db_two) \<and> c_user_id kim = u_id bob \<and>
   c_birthday kim = \<lparr>year = 1985, month = 1, day = 6\<rparr> \<and>
   kim \<notin> set (ContactService_get_upcoming_birthdays 7 bob
                \<lparr>year = 2024, month = 12, day = 29\<rparr> db_two)"
proof -
  have a: "add_days \<lparr>year = 2024, month = 12, day = 29\<rparr> 7 = \<lparr>year = 2025, month = 1, day = 5\<rparr>"
    by code_simp
  have ml: "lee \<in> set (contacts db_two)" and ol: "c_user_id lee = u_id alice"
    and bl: "c_birthday lee = \<lparr>year = 1990, month = 1, day = 3\<rparr>"
    and mk: "kim \<in> set (contacts db_two)" and ok: "c_user_id kim = u_id bob"
    and bk: "c_birthday kim = \<lparr>year = 1985, month = 1, day = 6\<rparr>"
    by (simp_all add: db_two_def lee_def kim_def alice_def bob_def)
  have r1: "lee \<in> set (ContactService_get_upcoming_birthdays 7 alice
                \<lparr>year = 2024, month = 12, day = 29\<rparr> db_two)"
    using upcoming_birthdays_window [of 7 alice "\<lparr>year = 2024, month = 12, day = 29\<rparr>" db_two,
        THEN conjunct2] ml ol bl by simp
  have r2: "kim \<notin> set (ContactService_get_upcoming_birthdays 7 bob
                \<lparr>year = 2024, month = 12, day = 29\<rparr> db_two)"
    using upcoming_birthdays_window [of 7 bob "\<lparr>year = 2024, month = 12, day = 29\<rparr>" db_two,
        THEN conjunct2] mk ok bk by simp
  from a ml ol bl r1 mk ok bk r2 show ?thesis by simp
qed

section \<open>Tokens\<close>

text \<open>
  C8.  A token issued at time \<open>t\<close> from claims \<open>cl\<close> with a lifetime of \<open>ttl\<close> seconds
  decodes to \<open>cl\<close> at every time before \<open>t + ttl\<close> and fails with \<open>InvalidToken\<close> at every
  time from \<open>t + ttl\<close> on; a token whose signature is not the signature of its claims and
  expiry under the server secret fails with \<open>InvalidToken\<close> at every time.
\<close>

theorem decode_issue:
  "(now < t + ttl \<longrightarrow> decode sign secret now (issue sign secret t cl ttl) = Inr cl) \<and>
   (t + ttl \<le> now \<longrightarrow> decode sign secret now (issue sign secret t cl ttl) = Inl InvalidToken) \<and>
   (tok_signature tok \<noteq> sign secret (tok_claims tok, tok_exp tok) \<longrightarrow>
      decode sign secret now tok = Inl InvalidToken)"
  by (simp add: decode_def issue_def)

text \<open>
  A token for alice that lives an hour: valid after 59 minutes, expired after 61, and
  rejected at once when it was signed with another secret.
\<close>

theorem decode_issue_witness:
  "(1000 + 3540 :: int) < 1000 + 3600 \<and>
   decode example_sign (py ''k1'') (1000 + 3540) (issue example_sign (py ''k1'') 1000 \<lparr>sub = py ''alice''\<rparr> 3600)
     = Inr \<lparr>sub = py ''alice''\<rparr> \<and>
   (1000 + 3600 :: int) \<le> 1000 + 3660 \<and>
   decode example_sign (py ''k1'') (1000 + 3660) (issue example_sign (py ''k1'') 1000 \<lparr>sub = py ''alice''\<rparr> 3600)
     = Inl InvalidToken \<and>
   tok_signature (issue example_sign (py ''k2'') 1000 \<lparr>sub = py ''alice''\<rparr> 3600) \<noteq>
     example_sign (py ''k1'') (tok_claims (issue example_sign (py ''k2'') 1000 \<lparr>sub = py ''alice''\<rparr> 3600),
                          tok_exp (issue example_sign (py ''k2'') 1000 \<lparr>sub = py ''alice''\<rparr> 3600)) \<and>
   decode example_sign (py ''k1'') (1000 + 3540) (issue example_sign (py ''k2'') 1000 \<lparr>sub = py ''alice''\<rparr> 3600)
     = Inl InvalidToken"
proof -
  have h1: "(1000 + 3540 :: int) < 1000 + 3600" and h2: "(1000 + 3600 :: int) \<le> 1000 + 3660"
    by simp_all
  have h3: "tok_signature (issue example_sign (py ''k2'') 1000 \<lparr>sub = py ''alice''\<rparr> 3600) \<noteq>
     example_sign (py ''k1'') (tok_claims (issue example_sign (py ''k2'') 1000 \<lparr>sub = py ''alice''\<rparr> 3600),
                          tok_exp (issue example_sign (py ''k2'') 1000 \<lparr>sub = py ''alice''\<rparr> 3600))"
    by (simp add: issue_def example_sign_def)
  have r1: "decode example_sign (py ''k1'') (1000 + 3540)
      (issue example_sign (py ''k1'') 1000 \<lparr>sub = py ''alice''\<rparr> 3600) = Inr \<lparr>sub = py ''alice''\<rparr>"
    using decode_issue [of "1000 + 3540" 1000 3600 example_sign "py ''k1''" "\<lparr>sub = py ''alice''\<rparr>"] h1
    by blast
  have r2: "decode example_sign (py ''k1'') (1000 + 3660)
      (issue example_sign (py ''k1'') 1000 \<lparr>sub = py ''alice''\<rparr> 3600) = Inl InvalidToken"
    using decode_issue [of "1000 + 3660" 1000 3600 example_sign "py ''k1''" "\<lparr>sub = py ''alice''\<rparr>"] h2
    by blast
  have r3: "decode example_sign (py ''k1'') (1000 + 3540)
      (issue example_sign (py ''k2'') 1000 \<lparr>sub = py ''alice''\<rparr> 3600) = Inl InvalidToken"
    using decode_issue [of _ _ _ example_sign "py ''k1''" _
        "issue example_sign (py ''k2'') 1000 \<lparr>sub = py ''alice''\<rparr> 3600" ] h3
    by blast
  from h1 h2 h3 r1 r2 r3 show ?thesis by blast
qed

section \<open>Validation of contact requests\<close>

lemma digits_then_end_iff:
  "digits_then_end nd s \<longleftrightarrow>
   (\<exists>ds nl. s = ds @ nl \<and> (\<forall>c \<in> set ds. unicode_decimal nd c) \<and> 1 \<le> length ds \<and>
      length ds \<le> 14 \<and> at_end nl)"
proof
  assume "digits_then_end nd s"
  then obtain k where k: "1 \<le> k" "k < 15" "k \<le> length s"
    and d: "\<forall>c \<in> set (take k s). unicode_decimal nd c" and e: "at_end (drop k s)"
    by (auto simp: digits_then_end_def list_ex_iff list_all_iff)
  have "s = take k s @ drop k s" by simp
  moreover have "length (take k s) = k" using k(3) by simp
  ultimately show "\<exists>ds nl. s = ds @ nl \<and> (\<forall>c \<in> set ds. unicode_decimal nd c) \<and>
      1 \<le> length ds \<and> length ds \<le> 14 \<and> at_end nl"
    using k d e by (intro exI [of _ "take k s"] exI [of _ "drop k s"]) simp
next
  assume "\<exists>ds nl. s = ds @ nl \<and> (\<forall>c \<in> set ds. unicode_decimal nd c) \<and> 1 \<le> length ds \<and>
      length ds \<le> 14 \<and> at_end nl"
  then obtain ds nl where s: "s = ds @ nl" and d: "\<forall>c \<in> set ds. unicode_decimal nd c"
    and l: "1 \<le> length ds" "length ds \<le> 14" and e: "at_end nl"
    by blast
  have "length ds \<in> set [1..<15]" using l by simp
  moreover have "length ds \<le> length s \<and> list_all (unicode_decimal nd) (take (length ds) s) \<and>
      at_end (drop (length ds) s)"
    using s d e by (simp add: list_all_iff)
  ultimately show "digits_then_end nd s"
    unfolding digits_then_end_def list_ex_iff by blast
qed

lemma from_first_digit_iff:
  "from_first_digit nd s \<longleftrightarrow>
   (\<exists>d ds nl. s = d # ds @ nl \<and> digit_1_9 d \<and> (\<forall>c \<in> set ds. unicode_decimal nd c) \<and>
      1 \<le> length ds \<and> length ds \<le> 14 \<and> at_end nl)"
proof (cases s)
  case Nil
  then show ?thesis by (simp add: from_first_digit_def)
next
  case (Cons c r)
  then show ?thesis
    by (simp add: from_first_digit_def digits_then_end_iff) blast
qed

text \<open>
  What \<open>re.match\<close> accepts: the international format, possibly followed by one newline.
\<close>

lemma phone_regex_match_iff:
  "phone_regex_match nd v \<longleftrightarrow>
   (\<exists>sign d ds nl. v = sign @ d # ds @ nl \<and> (sign = [] \<or> sign = py ''+'') \<and> digit_1_9 d \<and>
      (\<forall>c \<in> set ds. unicode_decimal nd c) \<and> 1 \<le> length ds \<and> length ds \<le> 14 \<and> at_end nl)"
proof
  assume "phone_regex_match nd v"
  then consider r where "v = 43 # r" "from_first_digit nd r" | "from_first_digit nd v"
    by (auto simp: phone_regex_match_def split: list.splits)
  then show "\<exists>sign d ds nl. v = sign @ d # ds @ nl \<and> (sign = [] \<or> sign = py ''+'') \<and>
      digit_1_9 d \<and> (\<forall>c \<in> set ds. unicode_decimal nd c) \<and> 1 \<le> length ds \<and>
      length ds \<le> 14 \<and> at_end nl"
  proof cases
    case 1
    then obtain d ds nl where "r = d # ds @ nl" "digit_1_9 d"
      "\<forall>c \<in> set ds. unicode_decimal nd c" "1 \<le> length ds" "length ds \<le> 14" "at_end nl"
      by (auto simp: from_first_digit_iff)
    with 1(1) show ?thesis
      by (intro exI [of _ "py ''+''"] exI [of _ d] exI [of _ ds] exI [of _ nl]) simp
  next
    case 2
    then obtain d ds nl where "v = d # ds @ nl" "digit_1_9 d"
      "\<forall>c \<in> set ds. unicode_decimal nd c" "1 \<le> length ds" "length ds \<le> 14" "at_end nl"
      by (auto simp: from_first_digit_iff)
    then show ?thesis
      by (intro exI [of _ "[]"] exI [of _ d] exI [of _ ds] exI [of _ nl]) simp
  qed
next
  assume "\<exists>sign d ds nl. v = sign @ d # ds @ nl \<and> (sign = [] \<or> sign = py ''+'') \<and>
      digit_1_9 d \<and> (\<forall>c \<in> set ds. unicode_decimal nd c) \<and> 1 \<le> length ds \<and>
      length ds \<le> 14 \<and> at_end nl"
  then obtain sign d ds nl where v: "v = sign @ d # ds @ nl"
    and sg: "sign = [] \<or> sign = py ''+''" and rest: "digit_1_9 d"
      "\<forall>c \<in> set ds. unicode_decimal nd c" "1 \<le> length ds" "length ds \<le> 14" "at_end nl"
    by blast
  from rest have f: "from_first_digit nd (d # ds @ nl)"
    unfolding from_first_digit_iff by blast
  from sg show "phone_regex_match nd v"
  proof
    assume "sign = []"
    with v f show ?thesis by (simp add: phone_regex_match_def)
  next
    assume "sign = py ''+''"
    with v f show ?thesis by (simp add: phone_regex_match_def)
  qed
qed

lemma phone_regex_match_no_newline:
  assumes "v = [] \<or> last v \<noteq> 10"
  shows "phone_regex_match nd v \<longleftrightarrow> international_format nd v"
proof
  assume "phone_regex_match nd v"
  then obtain sign d ds nl where v: "v = sign @ d # ds @ nl"
    and rest: "sign = [] \<or> sign = py ''+''" "digit_1_9 d"
      "\<forall>c \<in> set ds. unicode_decimal nd c" "1 \<le> length ds" "length ds \<le> 14"
    and e: "at_end nl"
    unfolding phone_regex_match_iff by blast
  have "nl = []"
  proof (rule ccontr)
    assume "nl \<noteq> []"
    with e have "nl = [10]" by (simp add: at_end_def)
    with v have "v \<noteq> [] \<and> last v = 10" by simp
    with assms show False by simp
  qed
  with v rest show "international_format nd v"
    unfolding international_format_def by auto
next
  assume "international_format nd v"
  then obtain sign d ds where "v = sign @ d # ds @ []"
    "sign = [] \<or> sign = py ''+''" "digit_1_9 d"
    "\<forall>c \<in> set ds. unicode_decimal nd c" "1 \<le> length ds" "length ds \<le> 14"
    unfolding international_format_def by auto
  moreover have "at_end []" by (simp add: at_end_def)
  ultimately show "phone_regex_match nd v"
    unfolding phone_regex_match_iff by blast
qed
text \<open>
  C9 as stated fails: \<open>+12345\<close> matches the pattern and is in the international format,
  and validation rejects it, because the field is declared with \<open>min_length = 7\<close>.
\<close>

theorem phone_pattern_not_sufficient:
  "phone_regex_match example_nd (py ''+12345'') \<and>
   international_format example_nd (py ''+12345'') \<and>
   \<not> phone_ok example_nd (py ''+12345'') \<and>
   ContactModel_validate example_nd example_email_valid \<lparr>year = 2025, month = 1, day = 1\<rparr>
     short_phone_body = Inl (RequestValidationError [py ''phone''])"
proof -
  have f: "international_format example_nd (py ''+12345'')"
    unfolding international_format_def
    by (intro exI [of _ "py ''+''"] exI [of _ 49] exI [of _ "py ''2345''"])
      (simp add: digit_1_9_def unicode_decimal_def)
  then have m: "phone_regex_match example_nd (py ''+12345'')"
    by (simp add: phone_regex_match_no_newline)
  have n: "\<not> phone_ok example_nd (py ''+12345'')"
    by (simp add: phone_ok_def length_between_def)
  have "ContactModel_errors example_nd example_email_valid \<lparr>year = 2025, month = 1, day = 1\<rparr>
     short_phone_body = [py ''phone'']"
    using n by (simp add: ContactModel_errors_def name_ok_def email_ok_def length_between_def
        birthday_ok_def validate_birthday_def date_less_def info_ok_def example_email_valid_def
        short_phone_body_def may_body_def)
  then have v: "ContactModel_validate example_nd example_email_valid
      \<lparr>year = 2025, month = 1, day = 1\<rparr> short_phone_body = Inl (RequestValidationError [py ''phone''])"
    by (simp add: ContactModel_validate_def)
  from m f n v show ?thesis by simp
qed

lemma phone_error_iff:
  "py ''phone'' \<in> set (ContactModel_errors nd ev today body) \<longleftrightarrow> \<not> phone_ok nd (cm_phone body)"
  by (simp add: ContactModel_errors_def)

lemma birthday_error_iff:
  "py ''birthday'' \<in> set (ContactModel_errors nd ev today body) \<longleftrightarrow>
   date_less today (cm_birthday body)"
  by (simp add: ContactModel_errors_def birthday_ok_def validate_birthday_def)

text \<open>
  C9, amended.  For a phone that does not end in a newline, validation accepts the phone
  field exactly when it has 7 to 20 characters and is in the international format of
  the pattern \<open>^\+?[1-9]\d{1,14}$\<close>: an optional plus sign, a digit from 1 to 9, then 1 to 14
  decimal digits.  Validation reports the phone field exactly when it does not accept
  it, and the birthday field exactly when the date is after today.  A body with a
  rejected phone or a birthday after today yields no model: the create and the update
  endpoint return the validation error and leave the store untouched, the contact
  service is not called.
\<close>

theorem contact_validation:
  "((v = [] \<or> last v \<noteq> 10) \<longrightarrow>
      (phone_ok nd v \<longleftrightarrow> 7 \<le> length v \<and> length v \<le> 20 \<and> international_format nd v)) \<and>
   (py ''phone'' \<in> set (ContactModel_errors nd ev today body) \<longleftrightarrow>
      \<not> phone_ok nd (cm_phone body)) \<and>
   (py ''birthday'' \<in> set (ContactModel_errors nd ev today body) \<longleftrightarrow>
      date_less today (cm_birthday body)) \<and>
   (\<not> phone_ok nd (cm_phone body) \<or> date_less today (cm_birthday body) \<longrightarrow>
      ContactModel_validate nd ev today body =
        Inl (RequestValidationError (ContactModel_errors nd ev today body)) \<and>
      create_contact_endpoint nd ev today body user now db =
        (Inl (RequestValidationError (ContactModel_errors nd ev today body)), db) \<and>
      update_contact_endpoint nd ev today contact_id body user now db =
        (Inl (RequestValidationError (ContactModel_errors nd ev today body)), db))"
proof (intro conjI impI)
  assume "v = [] \<or> last v \<noteq> 10"
  then have "phone_regex_match nd v \<longleftrightarrow> international_format nd v"
    by (rule phone_regex_match_no_newline)
  then show "phone_ok nd v \<longleftrightarrow> 7 \<le> length v \<and> length v \<le> 20 \<and> international_format nd v"
    by (auto simp: phone_ok_def length_between_def validate_phone_def)
next
  show "py ''phone'' \<in> set (ContactModel_errors nd ev today body) \<longleftrightarrow>
      \<not> phone_ok nd (cm_phone body)"
    by (rule phone_error_iff)
next
  show "py ''birthday'' \<in> set (ContactModel_errors nd ev today body) \<longleftrightarrow>
      date_less today (cm_birthday body)"
    by (rule birthday_error_iff)
next
  assume "\<not> phone_ok nd (cm_phone body) \<or> date_less today (cm_birthday body)"
  then have "py ''phone'' \<in> set (ContactModel_errors nd ev today body) \<or>
      py ''birthday'' \<in> set (ContactModel_errors nd ev today body)"
    unfolding phone_error_iff birthday_error_iff .
  then have "ContactModel_errors nd ev today body \<noteq> []"
    by auto
  then have bad: "ContactModel_validate nd ev today body =
        Inl (RequestValidationError (ContactModel_errors nd ev today body))"
    by (simp add: ContactModel_validate_def)
  show "ContactModel_validate nd ev today body =
        Inl (RequestValidationError (ContactModel_errors nd ev today body))"
    by (rule bad)
  show "create_contact_endpoint nd ev today body user now db =
        (Inl (RequestValidationError (ContactModel_errors nd ev today body)), db)"
    by (simp add: create_contact_endpoint_def bad)
  show "update_contact_endpoint nd ev today contact_id body user now db =
        (Inl (RequestValidationError (ContactModel_errors nd ev today body)), db)"
    by (simp add: update_contact_endpoint_def bad)
qed

text \<open>
  The phone of the schema's own example is accepted, and so is a phone of eight
  characters whose last six are Arabic-Indic digits; a body with a birthday on the day
  after today is rejected by both endpoints.
\<close>

theorem contact_validation_witness:
  "last (py ''+380501234567'') \<noteq> 10 \<and> phone_ok example_nd (py ''+380501234567'') \<and>
   last arabic_phone \<noteq> 10 \<and> international_format example_nd arabic_phone \<and>
   phone_ok example_nd arabic_phone \<and>
   date_less \<lparr>year = 2025, month = 1, day = 1\<rparr> (cm_birthday future_body) \<and>
   create_contact_endpoint example_nd example_email_valid \<lparr>year = 2025, month = 1, day = 1\<rparr>
       future_body alice 9 db_two = (Inl (RequestValidationError [py ''birthday'']), db_two) \<and>
   update_contact_endpoint example_nd example_email_valid \<lparr>year = 2025, month = 1, day = 1\<rparr> 1
       future_body alice 9 db_two = (Inl (RequestValidationError [py ''birthday'']), db_two)"
proof -
  have l1: "last (py ''+380501234567'') \<noteq> 10" by simp
  have f1: "international_format example_nd (py ''+380501234567'')"
    unfolding international_format_def
    by (intro exI [of _ "py ''+''"] exI [of _ 51] exI [of _ "py ''80501234567''"])
      (simp add: digit_1_9_def unicode_decimal_def)
  have p1: "phone_ok example_nd (py ''+380501234567'')"
    using contact_validation [of "py ''+380501234567''" example_nd] l1 f1 by simp
  have l2: "last arabic_phone \<noteq> 10" by (simp add: arabic_phone_def)
  have f2: "international_format example_nd arabic_phone"
    unfolding international_format_def
    by (intro exI [of _ "py ''+''"] exI [of _ 49] exI [of _ "[1632, 1633, 1634, 1635, 1636, 1637]"])
      (simp add: arabic_phone_def digit_1_9_def unicode_decimal_def example_nd_def)
  have p2: "phone_ok example_nd arabic_phone"
    using contact_validation [of arabic_phone example_nd] l2 f2 by (simp add: arabic_phone_def)
  have d: "date_less \<lparr>year = 2025, month = 1, day = 1\<rparr> (cm_birthday future_body)"
    by (simp add: date_less_def future_body_def)
  have pm: "phone_ok example_nd (cm_phone future_body)"
  proof -
    have "international_format example_nd (py ''+15551234567'')"
      unfolding international_format_def
      by (intro exI [of _ "py ''+''"] exI [of _ 49] exI [of _ "py ''5551234567''"])
        (simp add: digit_1_9_def unicode_decimal_def)
    then have "phone_ok example_nd (py ''+15551234567'')"
      using contact_validation [of "py ''+15551234567''" example_nd] by simp
    then show ?thesis by (simp add: future_body_def may_body_def)
  qed
  have e: "ContactModel_errors example_nd example_email_valid
      \<lparr>year = 2025, month = 1, day = 1\<rparr> future_body = [py ''birthday'']"
    using pm by (simp add: ContactModel_errors_def name_ok_def email_ok_def length_between_def
        birthday_ok_def validate_birthday_def date_less_def info_ok_def example_email_valid_def
        future_body_def may_body_def)
  have r: "create_contact_endpoint example_nd example_email_valid
       \<lparr>year = 2025, month = 1, day = 1\<rparr> future_body alice 9 db_two =
       (Inl (RequestValidationError [py ''birthday'']), db_two) \<and>
     update_contact_endpoint example_nd example_email_valid \<lparr>year = 2025, month = 1, day = 1\<rparr> 1
       future_body alice 9 db_two = (Inl (RequestValidationError [py ''birthday'']), db_two)"
    using contact_validation [of _ example_nd example_email_valid
        "\<lparr>year = 2025, month = 1, day = 1\<rparr>" future_body alice 9 db_two 1] d e by simp
  from l1 p1 l2 f2 p2 d r show ?thesis by blast
qed

end
